theory Spec2Isabelle
  imports
    Complex_Main
    "HOL-Library.Sublist"
    "HOL-Library.Char_ord"
    "HOL-Library.List_Lexorder"
    "HOL-Library.Product_Lexorder"
begin

section \<open>JavaScript values and strings\<close>

text \<open>
  The front end is TypeScript. A JavaScript string is modelled as a \<^typ>\<open>string\<close>, one
  \<^typ>\<open>char\<close> per code unit, and the model is exact on ASCII text: the case mappings
  act on the ASCII letters and leave every other character as it is, and white space is
  the ASCII white space (TAB, LF, VT, FF, CR, SPACE). Strings are compared as \<open>>\<close> does,
  code unit by code unit. A JavaScript number is a \<^typ>\<open>real\<close>; a value of type
  \<open>T | null\<close> is a \<open>T option\<close>.
\<close>

type_synonym number = real

definition is_upper :: "char \<Rightarrow> bool" where
  "is_upper c \<longleftrightarrow> CHR ''A'' \<le> c \<and> c \<le> CHR ''Z''"

definition is_lower :: "char \<Rightarrow> bool" where
  "is_lower c \<longleftrightarrow> CHR ''a'' \<le> c \<and> c \<le> CHR ''z''"

definition lower_char :: "char \<Rightarrow> char" where
  "lower_char c = (if is_upper c then char_of (of_char c + (32::nat)) else c)"

definition upper_char :: "char \<Rightarrow> char" where
  "upper_char c = (if is_lower c then char_of (of_char c - (32::nat)) else c)"

definition toLowerCase :: "string \<Rightarrow> string" where
  "toLowerCase s = map lower_char s"

definition toUpperCase :: "string \<Rightarrow> string" where
  "toUpperCase s = map upper_char s"

definition is_space :: "char \<Rightarrow> bool" where
  "is_space c \<longleftrightarrow> c \<in> set [CHR 0x09, CHR 0x0A, CHR 0x0B, CHR 0x0C, CHR 0x0D, CHR '' '']"

definition trim :: "string \<Rightarrow> string" where
  "trim s = rev (dropWhile is_space (rev (dropWhile is_space s)))"

text \<open>\<open>s.includes(q)\<close>: \<open>q\<close> occurs in \<open>s\<close> as a contiguous substring.\<close>

definition includes_js :: "string \<Rightarrow> string \<Rightarrow> bool" where
  "includes_js s q = sublist q s"

text \<open>\<open>x || ""\<close> on a value of type \<open>string | null\<close> (or an optional string): the
  empty string is falsy, so is \<open>null\<close>/\<open>undefined\<close>.\<close>

definition or_empty :: "string option \<Rightarrow> string" where
  "or_empty v = (case v of None \<Rightarrow> [] | Some s \<Rightarrow> s)"

text \<open>\<open>a || b\<close> on two such values: the first one when it is truthy, the second otherwise.\<close>

definition or_else :: "string option \<Rightarrow> string option \<Rightarrow> string option" where
  "or_else a b = (case a of None \<Rightarrow> b | Some s \<Rightarrow> (if s = [] then b else a))"

text \<open>\<open>s.split(/\s+/)\<close>: the pieces between the maximal runs of white space; a string
  that starts or ends with white space yields an empty first or last piece.\<close>

function split_ws :: "string \<Rightarrow> string list" where
  "split_ws s =
     (let w = takeWhile (\<lambda>c. \<not> is_space c) s;
          rest = dropWhile (\<lambda>c. \<not> is_space c) s
      in if rest = [] then [w] else w # split_ws (dropWhile is_space rest))"
  by pat_completeness auto
termination
proof (relation "measure length")
  show "wf (measure length)" by simp
next
  fix s :: string and w rest
  assume r: "rest = dropWhile (\<lambda>c. \<not> is_space c) s" and ne: "rest \<noteq> []"
  have "length (dropWhile is_space rest) < length rest"
  proof (cases rest)
    case Nil
    with ne show ?thesis by simp
  next
    case (Cons c cs)
    with r have "is_space c"
      by (metis hd_dropWhile list.sel(1) ne)
    with Cons show ?thesis
      by (simp add: le_imp_less_Suc length_dropWhile_le)
  qed
  moreover have "length rest \<le> length s"
    unfolding r by (rule length_dropWhile_le)
  ultimately show "(dropWhile is_space rest, s) \<in> measure length"
    by simp
qed

declare split_ws.simps [simp del]

text \<open>\<open>arr.sort(cmp)\<close>: the sort is stable, and the comparator says "a before b" with a
  negative number. The model is the stable insertion sort: an element moves right past
  exactly the elements it compares strictly greater than.\<close>

fun insert_cmp :: "('a \<Rightarrow> 'a \<Rightarrow> int) \<Rightarrow> 'a \<Rightarrow> 'a list \<Rightarrow> 'a list" where
  "insert_cmp cmp x [] = [x]"
| "insert_cmp cmp x (y # ys) =
     (if cmp x y \<le> 0 then x # y # ys else y # insert_cmp cmp x ys)"

definition sort_cmp :: "('a \<Rightarrow> 'a \<Rightarrow> int) \<Rightarrow> 'a list \<Rightarrow> 'a list" where
  "sort_cmp cmp xs = foldr (insert_cmp cmp) xs []"

section \<open>The tender table of \<open>frontend/src/App.tsx\<close>\<close>

text \<open>The type \<open>Tender\<close> of \<open>App.tsx\<close>; the fields \<open>id\<close> and \<open>region\<close> carry a suffix,
  the names being taken already.\<close>

record TenderRow =
  id_row :: number
  source :: string
  portal :: string
  country :: "string option"
  region_row :: "string option"
  buyer :: "string option"
  title :: string
  url :: string
  published_at :: "string option"
  closing_at :: "string option"
  budget :: "number option"
  category :: "string option"
  matched_keywords :: "string option"
  score :: "number option"

datatype ColumnKey =
  K_id | K_title | K_portal | K_source | K_buyer | K_country | K_region
  | K_budget | K_published_at | K_closing_at | K_score

datatype QuickField =
  Q_title | Q_buyer | Q_portal | Q_source | Q_country | Q_region
  | Q_category | Q_matched_keywords

datatype Direction = Asc | Desc

record SortState =
  key :: ColumnKey
  direction :: Direction

datatype Align = Left | Center | Right

record ColumnMeta =
  col_key :: ColumnKey
  label :: string
  align :: "Align option"
  locked :: "bool option"

text \<open>The table \<open>ALL_COLUMNS\<close>; the labels are display text only and are written
  here without their accents.\<close>

definition ALL_COLUMNS :: "ColumnMeta list" where
  "ALL_COLUMNS =
    [ \<lparr>col_key = K_id, label = ''ID'', align = Some Left, locked = Some True\<rparr>,
      \<lparr>col_key = K_title, label = ''Titre'', align = Some Left, locked = Some True\<rparr>,
      \<lparr>col_key = K_portal, label = ''Portail'', align = None, locked = None\<rparr>,
      \<lparr>col_key = K_source, label = ''Source'', align = None, locked = None\<rparr>,
      \<lparr>col_key = K_buyer, label = ''Acheteur'', align = None, locked = None\<rparr>,
      \<lparr>col_key = K_country, label = ''Pays'', align = Some Center, locked = None\<rparr>,
      \<lparr>col_key = K_region, label = ''Region'', align = Some Center, locked = None\<rparr>,
      \<lparr>col_key = K_budget, label = ''Budget'', align = Some Right, locked = None\<rparr>,
      \<lparr>col_key = K_published_at, label = ''Publiee'', align = Some Center, locked = None\<rparr>,
      \<lparr>col_key = K_closing_at, label = ''Fermeture'', align = Some Center, locked = None\<rparr>,
      \<lparr>col_key = K_score, label = ''Score'', align = Some Right, locked = None\<rparr> ]"

subsection \<open>Column visibility\<close>

text \<open>The initial value of the state \<open>visibleColumns\<close>.\<close>

definition initialVisibleColumns :: "ColumnKey set" where
  "initialVisibleColumns =
     {K_id, K_title, K_portal, K_source, K_buyer, K_country, K_budget, K_published_at}"

text \<open>\<open>colMeta?.locked\<close> is truthy only when the column is found and its \<open>locked\<close> is
  \<open>true\<close>; then \<open>toggleColumn\<close> returns before the state is touched.\<close>

definition toggleColumn :: "ColumnKey \<Rightarrow> ColumnKey set \<Rightarrow> ColumnKey set" where
  "toggleColumn k prev =
     (case find (\<lambda>c. col_key c = k) ALL_COLUMNS of
        Some colMeta \<Rightarrow>
          (if locked colMeta = Some True then prev
           else if k \<in> prev then prev - {k} else insert k prev)
      | None \<Rightarrow> (if k \<in> prev then prev - {k} else insert k prev))"

text \<open>The only writer of \<open>visibleColumns\<close> is \<open>toggleColumn\<close>: the states reached from
  the initial one are the results of folding it over a sequence of keys.\<close>

definition toggleAll :: "ColumnKey list \<Rightarrow> ColumnKey set \<Rightarrow> ColumnKey set" where
  "toggleAll ks s = foldl (\<lambda>st k. toggleColumn k st) s ks"

definition isColumnVisible :: "ColumnKey set \<Rightarrow> ColumnKey \<Rightarrow> bool" where
  "isColumnVisible visibleColumns k \<longleftrightarrow> k \<in> visibleColumns"

definition is_locked :: "ColumnKey \<Rightarrow> bool" where
  "is_locked k \<longleftrightarrow>
     (case find (\<lambda>c. col_key c = k) ALL_COLUMNS of
        Some colMeta \<Rightarrow> locked colMeta = Some True
      | None \<Rightarrow> False)"

subsection \<open>Filtering and sorting the table\<close>

text \<open>\<open>(t as any)[quickField]\<close>: every quick field is a string or \<open>null\<close>.\<close>

fun quickFieldOf :: "QuickField \<Rightarrow> TenderRow \<Rightarrow> string option" where
  "quickFieldOf Q_title t = Some (title t)"
| "quickFieldOf Q_buyer t = buyer t"
| "quickFieldOf Q_portal t = Some (portal t)"
| "quickFieldOf Q_source t = Some (source t)"
| "quickFieldOf Q_country t = country t"
| "quickFieldOf Q_region t = region_row t"
| "quickFieldOf Q_category t = category t"
| "quickFieldOf Q_matched_keywords t = matched_keywords t"

text \<open>The three shapes of comparison in the comparator of \<open>rows.sort\<close>. Strings are
  compared by \<open>>\<close>, code unit by code unit; a missing number counts as \<open>-Infinity\<close>.\<close>

definition cmp_str :: "int \<Rightarrow> string \<Rightarrow> string \<Rightarrow> int" where
  "cmp_str dir sa sb = (if sa = sb then 0 else if sa > sb then dir else - dir)"

fun gt_num :: "number option \<Rightarrow> number option \<Rightarrow> bool" where
  "gt_num (Some x) (Some y) \<longleftrightarrow> x > y"
| "gt_num (Some x) None \<longleftrightarrow> True"
| "gt_num None _ \<longleftrightarrow> False"

definition cmp_num :: "int \<Rightarrow> number option \<Rightarrow> number option \<Rightarrow> int" where
  "cmp_num dir na nb = (if na = nb then 0 else if gt_num na nb then dir else - dir)"

definition compareRows :: "SortState \<Rightarrow> TenderRow \<Rightarrow> TenderRow \<Rightarrow> int" where
  "compareRows sortState a b =
     (let dir = (if direction sortState = Asc then 1 else - 1) in
      case key sortState of
        K_published_at \<Rightarrow> cmp_str dir (or_empty (published_at a)) (or_empty (published_at b))
      | K_closing_at \<Rightarrow> cmp_str dir (or_empty (closing_at a)) (or_empty (closing_at b))
      | K_id \<Rightarrow> cmp_num dir (Some (id_row a)) (Some (id_row b))
      | K_budget \<Rightarrow> cmp_num dir (budget a) (budget b)
      | K_score \<Rightarrow> cmp_num dir (score a) (score b)
      | K_title \<Rightarrow> cmp_str dir (toLowerCase (title a)) (toLowerCase (title b))
      | K_portal \<Rightarrow> cmp_str dir (toLowerCase (portal a)) (toLowerCase (portal b))
      | K_source \<Rightarrow> cmp_str dir (toLowerCase (source a)) (toLowerCase (source b))
      | K_buyer \<Rightarrow>
          cmp_str dir (toLowerCase (or_empty (buyer a))) (toLowerCase (or_empty (buyer b)))
      | K_country \<Rightarrow>
          cmp_str dir (toLowerCase (or_empty (country a))) (toLowerCase (or_empty (country b)))
      | K_region \<Rightarrow>
          cmp_str dir (toLowerCase (or_empty (region_row a)))
            (toLowerCase (or_empty (region_row b))))"

text \<open>The initial value of the state \<open>sortState\<close>: what the table uses as long as the
  user has clicked no column header.\<close>

definition initialSortState :: SortState where
  "initialSortState = \<lparr>key = K_published_at, direction = Desc\<rparr>"

definition handleSort :: "ColumnKey \<Rightarrow> SortState \<Rightarrow> SortState" where
  "handleSort k prev =
     (if key prev = k
      then \<lparr>key = k, direction = (if direction prev = Asc then Desc else Asc)\<rparr>
      else \<lparr>key = k, direction = Asc\<rparr>)"

text \<open>The memo \<open>filteredTenders\<close>, with its dependencies as arguments: the main filters,
  the free-text query, the quick filter, then the sort.\<close>

definition queryTerms :: "string \<Rightarrow> string list" where
  "queryTerms query = filter (\<lambda>t. t \<noteq> []) (map toLowerCase (split_ws query))"

definition termMatches :: "TenderRow \<Rightarrow> string \<Rightarrow> bool" where
  "termMatches t term \<longleftrightarrow>
     includes_js (toLowerCase (title t)) term
     \<or> includes_js (toLowerCase (or_empty (buyer t))) term
     \<or> includes_js (toLowerCase (source t)) term
     \<or> includes_js (toLowerCase (portal t)) term"

definition filterRows ::
  "TenderRow list \<Rightarrow> string \<Rightarrow> string \<Rightarrow> string \<Rightarrow> QuickField \<Rightarrow> string \<Rightarrow> TenderRow list"
where
  "filterRows tenders countryFilter portalFilter query quickField quickValue =
     (let rows = tenders;
          rows = (if countryFilter \<noteq> ''ALL''
                  then filter (\<lambda>t. toUpperCase (or_empty (country t)) = toUpperCase countryFilter) rows
                  else rows);
          rows = (if portalFilter \<noteq> ''ALL''
                  then filter (\<lambda>t. toUpperCase (portal t) = toUpperCase portalFilter
                                   \<or> toUpperCase (source t) = toUpperCase portalFilter) rows
                  else rows);
          rows = (if trim query \<noteq> []
                  then filter (\<lambda>t. list_all (termMatches t) (queryTerms query)) rows
                  else rows);
          rows = (if trim quickValue \<noteq> []
                  then filter (\<lambda>t. includes_js (toLowerCase (or_empty (quickFieldOf quickField t)))
                                     (toLowerCase (trim quickValue))) rows
                  else rows)
      in rows)"

definition filteredTenders ::
  "TenderRow list \<Rightarrow> string \<Rightarrow> string \<Rightarrow> string \<Rightarrow> QuickField \<Rightarrow> string \<Rightarrow> SortState
     \<Rightarrow> TenderRow list"
where
  "filteredTenders tenders countryFilter portalFilter query quickField quickValue sortState =
     sort_cmp (compareRows sortState)
       (filterRows tenders countryFilter portalFilter query quickField quickValue)"

section \<open>The dashboard of the second front end\<close>

text \<open>
  The second \<open>App.tsx\<close> (the file with the tabs and \<open>visibleTenders\<close>) receives raw
  records and normalizes them. \<open>RawTender\<close> declares every field but \<open>id\<close> optional: an
  optional string is a \<open>string option\<close>, \<open>None\<close> standing for an absent field. The field
  \<open>est_ats\<close> is declared \<open>number | boolean | string\<close> and is compared by \<open>typeof\<close> and
  \<open>===\<close>, so it is a tagged value. \<open>jsval\<close> is the type of the values that a parsed
  JSON reply can hold, with \<open>undefined\<close> for what a read of an absent property gives;
  an object is the list of its properties, each name once.
\<close>

datatype jsval =
  Undefined | Null | Bool bool | Num number | Str string
  | Array "jsval list" | Object "(string \<times> jsval) list"

record RawTender =
  raw_id :: number
  raw_title :: "string option"
  raw_url :: "string option"
  raw_published_at :: "string option"
  raw_country :: "string option"
  raw_region :: "string option"
  raw_portal_name :: "string option"
  raw_buyer :: "string option"
  raw_categorie_principale :: "string option"
  raw_est_ats :: jsval
  raw_source :: "string option"
  raw_titre :: "string option"
  raw_lien :: "string option"
  raw_date_publication :: "string option"
  raw_date_cloture :: "string option"
  raw_pays :: "string option"
  raw_portail :: "string option"
  raw_acheteur :: "string option"

record Tender =
  id_tender :: number
  titre :: string
  acheteur :: string
  pays :: string
  region :: string
  date_publication :: string
  date_cloture :: string
  portail :: string
  lien :: string
  est_ats :: bool

text \<open>\<open>typeof v === "boolean" ? v : v === 1 || v === "1"\<close>, then \<open>Boolean(...)\<close> of a
  boolean.\<close>

definition est_ats_of :: "jsval \<Rightarrow> bool" where
  "est_ats_of v = (case v of Bool b \<Rightarrow> b | _ \<Rightarrow> (v = Num 1 \<or> v = Str ''1''))"

definition normalizeTender :: "RawTender \<Rightarrow> Tender" where
  "normalizeTender raw =
     \<lparr> id_tender = raw_id raw,
       titre = or_empty (or_else (raw_titre raw) (raw_title raw)),
       acheteur = or_empty (or_else (raw_acheteur raw) (raw_buyer raw)),
       pays = or_empty (or_else (raw_pays raw) (raw_country raw)),
       region = or_empty (raw_region raw),
       date_publication = or_empty (or_else (raw_date_publication raw) (raw_published_at raw)),
       date_cloture = or_empty (raw_date_cloture raw),
       portail = or_empty (or_else (or_else (raw_portail raw) (raw_portal_name raw)) (raw_source raw)),
       lien = or_empty (or_else (raw_lien raw) (raw_url raw)),
       est_ats = est_ats_of (raw_est_ats raw) \<rparr>"

datatype SearchField = SF_title_buyer | SF_title | SF_buyer

text \<open>\<open>hit\<close> closes over the trimmed, lower-cased query \<open>q\<close>.\<close>

definition hit :: "string \<Rightarrow> string \<Rightarrow> bool" where
  "hit q s = includes_js (toLowerCase s) q"

definition textMatch :: "SearchField \<Rightarrow> string \<Rightarrow> Tender \<Rightarrow> bool" where
  "textMatch searchField q t =
     (if searchField = SF_title then hit q (titre t)
      else if searchField = SF_buyer then hit q (acheteur t)
      else hit q (titre t) \<or> hit q (acheteur t))"

text \<open>The memo \<open>visibleTenders\<close>, with its dependencies as arguments.\<close>

definition visibleTenders ::
  "Tender list \<Rightarrow> string \<Rightarrow> string \<Rightarrow> bool \<Rightarrow> string \<Rightarrow> SearchField \<Rightarrow> Tender list"
where
  "visibleTenders tenders portalFilter countryFilter atsOnly query searchField =
     (let list = tenders;
          list = (if portalFilter \<noteq> ''ALL''
                  then filter (\<lambda>t. trim (portail t) = portalFilter) list else list);
          list = (if countryFilter \<noteq> ''ALL''
                  then filter (\<lambda>t. trim (pays t) = countryFilter) list else list);
          list = (if atsOnly then filter est_ats list else list);
          q = toLowerCase (trim query)
      in if q = [] then list else filter (textMatch searchField q) list)"

subsection \<open>The alias lists of the normalizer\<close>

text \<open>
  The canonical string fields, and for each the raw fields that \<open>normalizeTender\<close>
  probes, in the order of its \<open>||\<close> chain. \<open>firstNonEmpty\<close> is the contract in the
  words of the specification: the first value of the list that is present and not the
  empty string, and the empty string when there is none.
\<close>

datatype CanonicalField =
  F_titre | F_acheteur | F_pays | F_region | F_date_publication | F_date_cloture
  | F_portail | F_lien

fun fieldOf :: "CanonicalField \<Rightarrow> Tender \<Rightarrow> string" where
  "fieldOf F_titre t = titre t"
| "fieldOf F_acheteur t = acheteur t"
| "fieldOf F_pays t = pays t"
| "fieldOf F_region t = region t"
| "fieldOf F_date_publication t = date_publication t"
| "fieldOf F_date_cloture t = date_cloture t"
| "fieldOf F_portail t = portail t"
| "fieldOf F_lien t = lien t"

fun aliasValues :: "CanonicalField \<Rightarrow> RawTender \<Rightarrow> string option list" where
  "aliasValues F_titre raw = [raw_titre raw, raw_title raw]"
| "aliasValues F_acheteur raw = [raw_acheteur raw, raw_buyer raw]"
| "aliasValues F_pays raw = [raw_pays raw, raw_country raw]"
| "aliasValues F_region raw = [raw_region raw]"
| "aliasValues F_date_publication raw = [raw_date_publication raw, raw_published_at raw]"
| "aliasValues F_date_cloture raw = [raw_date_cloture raw]"
| "aliasValues F_portail raw = [raw_portail raw, raw_portal_name raw, raw_source raw]"
| "aliasValues F_lien raw = [raw_lien raw, raw_url raw]"

fun firstNonEmpty :: "string option list \<Rightarrow> string" where
  "firstNonEmpty [] = []"
| "firstNonEmpty (None # vs) = firstNonEmpty vs"
| "firstNonEmpty (Some s # vs) = (if s \<noteq> [] then s else firstNonEmpty vs)"

text \<open>The raw record \<open>{ id: i }\<close>: every optional field absent.\<close>

definition emptyRaw :: "number \<Rightarrow> RawTender" where
  "emptyRaw i =
     \<lparr> raw_id = i, raw_title = None, raw_url = None, raw_published_at = None,
       raw_country = None, raw_region = None, raw_portal_name = None, raw_buyer = None,
       raw_categorie_principale = None, raw_est_ats = Undefined, raw_source = None,
       raw_titre = None, raw_lien = None, raw_date_publication = None,
       raw_date_cloture = None, raw_pays = None, raw_portail = None, raw_acheteur = None \<rparr>"

subsection \<open>The normalizer on untyped input\<close>

text \<open>
  The types of \<open>RawTender\<close> are erased when the program runs: \<open>fetchTenders\<close> casts the
  parsed reply (\<open>(await res.json()) as TendersResponse\<close>) and maps \<open>normalizeTender\<close>
  over \<open>data.items\<close>, whatever they hold. This is the same function on any value. A
  property read throws a \<open>TypeError\<close> when the receiver is \<open>null\<close> or \<open>undefined\<close>, and
  gives \<open>undefined\<close> when the receiver has no such property (none of the names read here
  is a property of a string, a number, a boolean or an array). \<open>a || b\<close> is \<open>a\<close> when
  \<open>a\<close> is truthy and \<open>b\<close> otherwise. Nothing converts the value that comes out of the
  \<open>||\<close> chain, so a field of the result holds whatever value was found.
\<close>

datatype js_error = TypeError

fun truthy :: "jsval \<Rightarrow> bool" where
  "truthy Undefined \<longleftrightarrow> False"
| "truthy Null \<longleftrightarrow> False"
| "truthy (Bool b) \<longleftrightarrow> b"
| "truthy (Num n) \<longleftrightarrow> n \<noteq> 0"
| "truthy (Str s) \<longleftrightarrow> s \<noteq> []"
| "truthy (Array xs) \<longleftrightarrow> True"
| "truthy (Object fs) \<longleftrightarrow> True"

definition js_or :: "jsval \<Rightarrow> jsval \<Rightarrow> jsval" where
  "js_or a b = (if truthy a then a else b)"

text \<open>\<open>raw.k\<close> on a receiver that is neither \<open>null\<close> nor \<open>undefined\<close>.\<close>

fun propOf :: "jsval \<Rightarrow> string \<Rightarrow> jsval" where
  "propOf (Object fs) k = (case map_of fs k of Some v \<Rightarrow> v | None \<Rightarrow> Undefined)"
| "propOf _ k = Undefined"

record TenderJs =
  js_id :: jsval
  js_titre :: jsval
  js_acheteur :: jsval
  js_pays :: jsval
  js_region :: jsval
  js_date_publication :: jsval
  js_date_cloture :: jsval
  js_portail :: jsval
  js_lien :: jsval
  js_est_ats :: bool

text \<open>The first statement of \<open>normalizeTender\<close> reads \<open>raw.titre\<close>: on \<open>null\<close> or
  \<open>undefined\<close> it throws, and no later statement can throw.\<close>

definition normalizeTender_js :: "jsval \<Rightarrow> js_error + TenderJs" where
  "normalizeTender_js raw =
     (if raw = Null \<or> raw = Undefined then Inl TypeError
      else Inr
        \<lparr> js_id = propOf raw ''id'',
          js_titre = js_or (js_or (propOf raw ''titre'') (propOf raw ''title'')) (Str []),
          js_acheteur = js_or (js_or (propOf raw ''acheteur'') (propOf raw ''buyer'')) (Str []),
          js_pays = js_or (js_or (propOf raw ''pays'') (propOf raw ''country'')) (Str []),
          js_region = js_or (propOf raw ''region'') (Str []),
          js_date_publication =
            js_or (js_or (propOf raw ''date_publication'') (propOf raw ''published_at'')) (Str []),
          js_date_cloture = js_or (propOf raw ''date_cloture'') (Str []),
          js_portail =
            js_or (js_or (js_or (propOf raw ''portail'') (propOf raw ''portal_name''))
              (propOf raw ''source'')) (Str []),
          js_lien = js_or (js_or (propOf raw ''lien'') (propOf raw ''url'')) (Str []),
          js_est_ats = est_ats_of (propOf raw ''est_ats'') \<rparr>)"

text \<open>\<open>items.map(normalizeTender)\<close>: the first item that throws ends the whole map.\<close>

fun mapNormalize :: "jsval list \<Rightarrow> js_error + TenderJs list" where
  "mapNormalize [] = Inr []"
| "mapNormalize (x # xs) =
     (case normalizeTender_js x of
        Inl e \<Rightarrow> Inl e
      | Inr t \<Rightarrow> (case mapNormalize xs of Inl e \<Rightarrow> Inl e | Inr ts \<Rightarrow> Inr (t # ts)))"

text \<open>The alias lists by property name, the fields of the untyped result, and the
  contract in the words of the specification on untyped values: the first alias value
  that is truthy, the empty string when there is none.\<close>

fun aliasNames :: "CanonicalField \<Rightarrow> string list" where
  "aliasNames F_titre = [''titre'', ''title'']"
| "aliasNames F_acheteur = [''acheteur'', ''buyer'']"
| "aliasNames F_pays = [''pays'', ''country'']"
| "aliasNames F_region = [''region'']"
| "aliasNames F_date_publication = [''date_publication'', ''published_at'']"
| "aliasNames F_date_cloture = [''date_cloture'']"
| "aliasNames F_portail = [''portail'', ''portal_name'', ''source'']"
| "aliasNames F_lien = [''lien'', ''url'']"

fun fieldOfJs :: "CanonicalField \<Rightarrow> TenderJs \<Rightarrow> jsval" where
  "fieldOfJs F_titre t = js_titre t"
| "fieldOfJs F_acheteur t = js_acheteur t"
| "fieldOfJs F_pays t = js_pays t"
| "fieldOfJs F_region t = js_region t"
| "fieldOfJs F_date_publication t = js_date_publication t"
| "fieldOfJs F_date_cloture t = js_date_cloture t"
| "fieldOfJs F_portail t = js_portail t"
| "fieldOfJs F_lien t = js_lien t"

fun firstTruthy :: "jsval list \<Rightarrow> jsval" where
  "firstTruthy [] = Str []"
| "firstTruthy (v # vs) = (if truthy v then v else firstTruthy vs)"

text \<open>A typed raw record as the object it is at run time, and a typed canonical record
  as the untyped one.\<close>

definition optStr :: "string option \<Rightarrow> jsval" where
  "optStr v = (case v of None \<Rightarrow> Undefined | Some s \<Rightarrow> Str s)"

definition toObject :: "RawTender \<Rightarrow> jsval" where
  "toObject raw =
     Object
      [ (''id'', Num (raw_id raw)), (''title'', optStr (raw_title raw)),
        (''url'', optStr (raw_url raw)), (''published_at'', optStr (raw_published_at raw)),
        (''country'', optStr (raw_country raw)), (''region'', optStr (raw_region raw)),
        (''portal_name'', optStr (raw_portal_name raw)), (''buyer'', optStr (raw_buyer raw)),
        (''categorie_principale'', optStr (raw_categorie_principale raw)),
        (''est_ats'', raw_est_ats raw), (''source'', optStr (raw_source raw)),
        (''titre'', optStr (raw_titre raw)), (''lien'', optStr (raw_lien raw)),
        (''date_publication'', optStr (raw_date_publication raw)),
        (''date_cloture'', optStr (raw_date_cloture raw)), (''pays'', optStr (raw_pays raw)),
        (''portail'', optStr (raw_portail raw)), (''acheteur'', optStr (raw_acheteur raw)) ]"

definition toJs :: "Tender \<Rightarrow> TenderJs" where
  "toJs t =
     \<lparr> js_id = Num (id_tender t), js_titre = Str (titre t), js_acheteur = Str (acheteur t),
       js_pays = Str (pays t), js_region = Str (region t),
       js_date_publication = Str (date_publication t),
       js_date_cloture = Str (date_cloture t), js_portail = Str (portail t),
       js_lien = Str (lien t), js_est_ats = est_ats t \<rparr>"

subsection \<open>Sample data\<close>

text \<open>Three raw records as a portal feed delivers them (English keys, French keys, a
  country with stray blanks, the three spellings of \<open>est_ats\<close>), and three rows of the
  table.\<close>

definition sampleRaws :: "RawTender list" where
  "sampleRaws =
    [ (emptyRaw 1)\<lparr>raw_title := Some ''Implementation CRM ServiceNow'',
        raw_buyer := Some ''Ville de Quebec'', raw_country := Some ''CA'',
        raw_portal_name := Some ''SEAO'', raw_est_ats := Num 1,
        raw_published_at := Some ''2024-03-01''\<rparr>,
      (emptyRaw 2)\<lparr>raw_titre := Some ''Refection de route'',
        raw_acheteur := Some ''CRM Montreal'', raw_pays := Some '' CA '',
        raw_portail := Some ''CanadaBuys'', raw_est_ats := Str ''true''\<rparr>,
      (emptyRaw 3)\<lparr>raw_title := Some ''Odoo ERP'', raw_buyer := Some ''Paris'',
        raw_country := Some ''FR'', raw_source := Some ''BOAMP'',
        raw_est_ats := Bool True\<rparr> ]"

text \<open>A malformed item of a reply: a \<open>null\<close> title, numbers and booleans where strings
  are expected, an array as portal, an unknown spelling of \<open>est_ats\<close>.\<close>

definition sampleItem :: jsval where
  "sampleItem =
     Object [ (''id'', Num 7), (''title'', Null), (''buyer'', Num 0), (''url'', Bool False),
              (''portail'', Array []), (''est_ats'', Str ''yes'') ]"

definition sampleTenders :: "Tender list" where
  "sampleTenders = map normalizeTender sampleRaws"

definition sampleRow :: "number \<Rightarrow> string \<Rightarrow> string option \<Rightarrow> string option \<Rightarrow> TenderRow" where
  "sampleRow i ttl ctry pub =
     \<lparr> id_row = i, source = ''SEAO'', portal = ''SEAO'', country = ctry, region_row = None,
       buyer = None, title = ttl, url = ''https://example.org'', published_at = pub,
       closing_at = None, budget = None, category = None, matched_keywords = None,
       score = None \<rparr>"

definition sampleRows :: "TenderRow list" where
  "sampleRows =
    [ sampleRow 1 ''Portail web'' (Some ''ca'') (Some ''2024-01-15''),
      sampleRow 2 ''Migration ERP'' (Some ''FR'') None,
      sampleRow 3 ''Audit'' (Some ''CA'') (Some ''2024-03-02'') ]"

section \<open>The read paths of the back end\<close>

text \<open>
  The Tender Store, the listing and the Stats Aggregator belong to the back end
  (\<open>backend/main.py\<close>), which is not among the sources: the front end only calls
  \<open>/tenders\<close>, \<open>/report/categories\<close> and \<open>/report/keywords\<close> and shows what comes
  back. The definitions of this section follow the specification, sections 3, 4.4, 4.5
  and 6. The Filter Engine turns a filter configuration into one predicate, which both
  read paths evaluate: the predicate is the argument \<open>P\<close>.
\<close>

text \<open>Modelled from the spec: the row type of the Tender Store (data model, section 3),
  absent from the sources.\<close>

record StoredTender =
  st_id :: nat
  st_natural_key :: string
  st_portal :: string
  st_title :: string
  st_buyer :: string
  st_country :: string
  st_region :: string
  st_url :: string
  st_published_at :: string
  st_closing_at :: string
  st_budget :: "number option"
  st_category :: string
  st_matched_keywords :: "string list"
  st_score :: nat
  st_first_seen_at :: string
  st_last_seen_at :: string

text \<open>Modelled from the spec: the result of a stats query (section 6): the size of the
  filtered set, the number of distinct buckets and the ranked \<open>(bucket_label, count)\<close>
  pairs.\<close>

record Report =
  total_tenders :: nat
  distinct_buckets :: nat
  buckets :: "(string \<times> nat) list"

text \<open>Modelled from the spec: "optionally truncated to \<open>top_n\<close>", and the \<open>limit\<close> of
  the listing; \<open>None\<close> is "no truncation", "unlimited".\<close>

definition truncate_to :: "nat option \<Rightarrow> 'a list \<Rightarrow> 'a list" where
  "truncate_to n xs = (case n of None \<Rightarrow> xs | Some k \<Rightarrow> take k xs)"

text \<open>Modelled from the spec: \<open>listTenders(filter, limit)\<close> (section 6), the filtered
  rows in the default order, \<open>published_at\<close> descending.\<close>

definition listTenders ::
  "(StoredTender \<Rightarrow> bool) \<Rightarrow> nat option \<Rightarrow> StoredTender list \<Rightarrow> StoredTender list"
where
  "listTenders P limit store =
     truncate_to limit
       (sort_cmp (\<lambda>a b. cmp_str (- 1) (st_published_at a) (st_published_at b))
          (filter P store))"

text \<open>Modelled from the spec: the buckets of the Stats Aggregator (section 4.5). Every
  label handed in is one contribution to the bucket of that label.\<close>

definition bucketCounts :: "string list \<Rightarrow> (string \<times> nat) list" where
  "bucketCounts labels = map (\<lambda>l. (l, count_list labels l)) (remdups labels)"

text \<open>Modelled from the spec: the ranking order of section 4.5, as a sort key compared
  lexicographically: the count negated (larger counts first), then the label.\<close>

definition rankKey :: "string \<times> nat \<Rightarrow> int \<times> string" where
  "rankKey b = (- int (snd b), fst b)"

text \<open>Modelled from the spec: "sorted by count descending, ties broken by bucket_label
  ascending" (section 4.5).\<close>

definition rankBuckets :: "(string \<times> nat) list \<Rightarrow> (string \<times> nat) list" where
  "rankBuckets bs = sort_key rankKey bs"

text \<open>Modelled from the spec: the output of the aggregator (section 4.5): the ranked
  pairs, optionally truncated, "accompanied by total_tenders (size of the filtered set)
  and distinct_bucket_count".\<close>

definition aggregate :: "nat \<Rightarrow> string list \<Rightarrow> nat option \<Rightarrow> Report" where
  "aggregate filtered_size labels top_n =
     (let ranked = rankBuckets (bucketCounts labels)
      in \<lparr> total_tenders = filtered_size, distinct_buckets = length ranked,
           buckets = truncate_to top_n ranked \<rparr>)"

text \<open>Modelled from the spec: \<open>statsByCategory\<close> (section 6); each tender of the
  filtered set contributes to exactly one bucket, that of its category.\<close>

definition statsByCategory ::
  "(StoredTender \<Rightarrow> bool) \<Rightarrow> nat option \<Rightarrow> StoredTender list \<Rightarrow> Report"
where
  "statsByCategory P top_n store =
     (let fs = filter P store in aggregate (length fs) (map st_category fs) top_n)"

text \<open>Modelled from the spec: \<open>statsByPortal\<close> (section 6), the same grouping by the
  source portal code.\<close>

definition statsByPortal ::
  "(StoredTender \<Rightarrow> bool) \<Rightarrow> nat option \<Rightarrow> StoredTender list \<Rightarrow> Report"
where
  "statsByPortal P top_n store =
     (let fs = filter P store in aggregate (length fs) (map st_portal fs) top_n)"

text \<open>Modelled from the spec: the contributions to the keyword buckets (section 4.5);
  a tender with N matched keywords contributes one count to each of its N keyword
  buckets.\<close>

definition keywordHits :: "StoredTender list \<Rightarrow> string list" where
  "keywordHits fs = concat (map (\<lambda>t. remdups (st_matched_keywords t)) fs)"

text \<open>Modelled from the spec: \<open>statsByKeyword\<close> (section 6).\<close>

definition statsByKeyword ::
  "(StoredTender \<Rightarrow> bool) \<Rightarrow> nat option \<Rightarrow> StoredTender list \<Rightarrow> Report"
where
  "statsByKeyword P top_n store =
     (let fs = filter P store in aggregate (length fs) (keywordHits fs) top_n)"

text \<open>A store for scenario C of the specification: fourteen tenders, six matching both
  "odoo" and "servicenow", six "odoo" alone, two "servicenow" alone.\<close>

definition storedTender :: "nat \<Rightarrow> string \<Rightarrow> string \<Rightarrow> string list \<Rightarrow> StoredTender" where
  "storedTender i prt cat kws =
     \<lparr> st_id = i, st_natural_key = ''k'', st_portal = prt, st_title = ''t'',
       st_buyer = ''b'', st_country = ''CA'', st_region = ''QC'', st_url = ''u'',
       st_published_at = ''2024-01-01'', st_closing_at = ''2024-02-01'', st_budget = None,
       st_category = cat, st_matched_keywords = kws, st_score = 10 * length kws,
       st_first_seen_at = ''2024-01-01'', st_last_seen_at = ''2024-01-02'' \<rparr>"

definition scenarioStore :: "StoredTender list" where
  "scenarioStore =
     map (\<lambda>i. storedTender i ''SEAO'' ''ERP'' [''odoo'', ''servicenow'']) [0 ..< 6]
     @ map (\<lambda>i. storedTender i ''SEAO'' ''ERP'' [''odoo'']) [6 ..< 12]
     @ map (\<lambda>i. storedTender i ''CanadaBuys'' ''TI'' [''servicenow'']) [12 ..< 14]"

section \<open>Column visibility: the locked columns stay\<close>

lemma is_locked_iff: "is_locked k \<longleftrightarrow> k = K_id \<or> k = K_title"
  by (cases k) (simp_all add: is_locked_def ALL_COLUMNS_def)

lemma toggleColumn_locked: "is_locked k \<Longrightarrow> toggleColumn k s = s"
  by (auto simp: is_locked_def toggleColumn_def split: option.splits)

lemma toggleColumn_keeps:
  assumes "is_locked c" and "c \<in> s"
  shows "c \<in> toggleColumn k s"
proof (cases "is_locked k")
  case True
  with assms show ?thesis by (simp add: toggleColumn_locked)
next
  case False
  with assms have "k \<noteq> c" by auto
  with assms show ?thesis
    by (auto simp: toggleColumn_def split: option.splits)
qed

lemma toggleAll_keeps: "is_locked c \<Longrightarrow> c \<in> s \<Longrightarrow> c \<in> toggleAll ks s"
  unfolding toggleAll_def
  by (induction ks arbitrary: s) (simp_all add: toggleColumn_keeps)

text \<open>
  Claim C10. The columns \<open>id\<close> and \<open>title\<close> are visible in every state of
  \<open>visibleColumns\<close> that can be reached: the initial state holds both, \<open>toggleColumn\<close>
  on a locked column (these two are the locked ones) returns the state unchanged, and
  after any sequence of \<open>toggleColumn\<close> calls both are still visible.
\<close>

theorem locked_columns_always_visible:
  "isColumnVisible initialVisibleColumns K_id
   \<and> isColumnVisible initialVisibleColumns K_title
   \<and> is_locked K_id \<and> is_locked K_title
   \<and> (\<forall>k s. is_locked k \<longrightarrow> toggleColumn k s = s)
   \<and> (\<forall>ks. isColumnVisible (toggleAll ks initialVisibleColumns) K_id
          \<and> isColumnVisible (toggleAll ks initialVisibleColumns) K_title)"
proof (intro conjI allI impI)
  show "isColumnVisible initialVisibleColumns K_id"
    by (simp add: isColumnVisible_def initialVisibleColumns_def)
  show "isColumnVisible initialVisibleColumns K_title"
    by (simp add: isColumnVisible_def initialVisibleColumns_def)
  show "is_locked K_id" by (simp add: is_locked_iff)
  show "is_locked K_title" by (simp add: is_locked_iff)
next
  fix k s
  assume "is_locked k"
  then show "toggleColumn k s = s" by (rule toggleColumn_locked)
next
  fix ks
  have "K_id \<in> toggleAll ks initialVisibleColumns"
    by (rule toggleAll_keeps) (simp_all add: is_locked_iff initialVisibleColumns_def)
  then show "isColumnVisible (toggleAll ks initialVisibleColumns) K_id"
    by (simp only: isColumnVisible_def)
next
  fix ks
  have "K_title \<in> toggleAll ks initialVisibleColumns"
    by (rule toggleAll_keeps) (simp_all add: is_locked_iff initialVisibleColumns_def)
  then show "isColumnVisible (toggleAll ks initialVisibleColumns) K_title"
    by (simp only: isColumnVisible_def)
qed

theorem locked_columns_always_visible_witness:
  "is_locked K_id \<and> toggleColumn K_id {K_id, K_score} = {K_id, K_score}
   \<and> isColumnVisible (toggleAll [K_id, K_portal, K_title, K_id] initialVisibleColumns) K_id
   \<and> isColumnVisible (toggleAll [K_id, K_portal, K_title, K_id] initialVisibleColumns) K_title"
proof -
  have a: "is_locked K_id"
    using locked_columns_always_visible by (elim conjE)
  have b: "\<forall>k s. is_locked k \<longrightarrow> toggleColumn k s = s"
    using locked_columns_always_visible by (elim conjE)
  have c: "\<forall>ks. isColumnVisible (toggleAll ks initialVisibleColumns) K_id
          \<and> isColumnVisible (toggleAll ks initialVisibleColumns) K_title"
    using locked_columns_always_visible by (elim conjE)
  from a b have "toggleColumn K_id {K_id, K_score} = {K_id, K_score}"
    by (elim allE impE) assumption+
  moreover from c
  have "isColumnVisible (toggleAll [K_id, K_portal, K_title, K_id] initialVisibleColumns) K_id
      \<and> isColumnVisible (toggleAll [K_id, K_portal, K_title, K_id] initialVisibleColumns) K_title"
    by (rule spec)
  ultimately show ?thesis using a by (intro conjI) (elim conjE, assumption)+
qed

section \<open>The normalizer\<close>

lemma or_empty_or_else: "or_empty (or_else a b) = firstNonEmpty [a, b]"
  by (cases a; cases b) (simp_all add: or_empty_def or_else_def)

lemma or_empty_or_else3: "or_empty (or_else (or_else a b) c) = firstNonEmpty [a, b, c]"
  by (cases a; cases b; cases c) (simp_all add: or_empty_def or_else_def)

lemma or_empty_single: "or_empty a = firstNonEmpty [a]"
  by (cases a) (simp_all add: or_empty_def)

lemma normalizeTender_field:
  "fieldOf f (normalizeTender raw) = firstNonEmpty (aliasValues f raw)"
proof (cases f)
  case F_region
  then show ?thesis
    by (simp add: normalizeTender_def or_empty_single)
next
  case F_date_cloture
  then show ?thesis
    by (simp add: normalizeTender_def or_empty_single)
next
  case F_portail
  then show ?thesis
    by (simp only: fieldOf.simps aliasValues.simps normalizeTender_def Tender.simps
        or_empty_or_else3)
qed (simp_all only: fieldOf.simps aliasValues.simps normalizeTender_def Tender.simps
      or_empty_or_else)

lemma firstNonEmpty_none:
  "(\<forall>v \<in> set vs. or_empty v = []) \<Longrightarrow> firstNonEmpty vs = []"
  by (induction vs rule: firstNonEmpty.induct) (simp_all add: or_empty_def)

lemma firstNonEmpty_first:
  "(\<forall>v \<in> set pre. or_empty v = []) \<Longrightarrow> s \<noteq> [] \<Longrightarrow>
     firstNonEmpty (pre @ Some s # post) = s"
  by (induction pre rule: firstNonEmpty.induct) (simp_all add: or_empty_def)

lemma est_ats_of_iff:
  "est_ats_of v \<longleftrightarrow> v = Bool True \<or> v = Num 1 \<or> v = Str ''1''"
  by (cases v) (simp_all add: est_ats_of_def)

text \<open>
  Claim C4, as the specification words it: each canonical field is the first non-empty
  alias value \<^emph>\<open>with surrounding white space trimmed\<close>. The raw record
  \<open>{ id: 1, titre: " x " }\<close> refutes it: \<open>normalizeTender\<close> hands the value on as it
  is, white space included.
\<close>

theorem normalizer_trims_counterexample:
  "fieldOf F_titre (normalizeTender ((emptyRaw 1)\<lparr>raw_titre := Some '' x ''\<rparr>))
     \<noteq> trim (firstNonEmpty (aliasValues F_titre ((emptyRaw 1)\<lparr>raw_titre := Some '' x ''\<rparr>)))"
  by (simp add: normalizeTender_def emptyRaw_def or_empty_def or_else_def trim_def is_space_def)

text \<open>
  Claim C4, amended. For each canonical field, \<open>normalizeTender\<close> returns the first
  non-empty value found by probing the field's fixed, ordered alias list, unchanged
  (nothing is trimmed): the value that follows a run of absent or empty aliases. When no
  alias yields a non-empty value, the field is the empty string.
\<close>

theorem normalizer_first_non_empty_alias:
  "fieldOf f (normalizeTender raw) = firstNonEmpty (aliasValues f raw)
   \<and> (\<forall>pre s post. aliasValues f raw = pre @ Some s # post
          \<and> (\<forall>v \<in> set pre. or_empty v = []) \<and> s \<noteq> []
        \<longrightarrow> fieldOf f (normalizeTender raw) = s)
   \<and> ((\<forall>v \<in> set (aliasValues f raw). or_empty v = [])
        \<longrightarrow> fieldOf f (normalizeTender raw) = [])"
  by (simp add: normalizeTender_field firstNonEmpty_none firstNonEmpty_first)

theorem normalizer_first_non_empty_alias_witness:
  "fieldOf F_portail (normalizeTender
      ((emptyRaw 1)\<lparr>raw_portail := Some [], raw_source := Some ''SEAO''\<rparr>)) = ''SEAO''
   \<and> fieldOf F_lien (normalizeTender
      ((emptyRaw 1)\<lparr>raw_portail := Some [], raw_source := Some ''SEAO''\<rparr>)) = []"
proof -
  let ?raw = "(emptyRaw 1)\<lparr>raw_portail := Some [], raw_source := Some ''SEAO''\<rparr>"
  have a: "aliasValues F_portail ?raw = [Some [], None] @ Some ''SEAO'' # []"
    by (simp add: emptyRaw_def)
  have b: "\<forall>v \<in> set [Some [], None :: string option]. or_empty v = []"
    by (simp add: or_empty_def)
  have c: "\<forall>v \<in> set (aliasValues F_lien ?raw). or_empty v = []"
    by (simp add: emptyRaw_def or_empty_def)
  from normalizer_first_non_empty_alias [of F_portail ?raw] a b
  have "fieldOf F_portail (normalizeTender ?raw) = ''SEAO''"
    by blast
  moreover from normalizer_first_non_empty_alias [of F_lien ?raw] c
  have "fieldOf F_lien (normalizeTender ?raw) = []"
    by blast
  ultimately show ?thesis by (rule conjI)
qed

subsection \<open>The normalizer on untyped input\<close>

lemma normalizeTender_js_error:
  "normalizeTender_js raw = Inl TypeError \<longleftrightarrow> raw = Null \<or> raw = Undefined"
  by (simp add: normalizeTender_js_def)

lemma normalizeTender_js_field:
  assumes "normalizeTender_js raw = Inr t"
  shows "fieldOfJs f t = firstTruthy (map (propOf raw) (aliasNames f))"
proof -
  from assms have ok: "\<not> (raw = Null \<or> raw = Undefined)"
    by (auto simp: normalizeTender_js_def split: if_splits)
  with assms show ?thesis
    by (cases f) (auto simp: normalizeTender_js_def js_or_def)
qed

lemma normalizeTender_js_rest:
  assumes "normalizeTender_js raw = Inr t"
  shows "js_est_ats t = est_ats_of (propOf raw ''est_ats'')" and "js_id t = propOf raw ''id''"
  using assms by (auto simp: normalizeTender_js_def split: if_splits)

lemma firstTruthy_none: "(\<forall>v \<in> set vs. \<not> truthy v) \<Longrightarrow> firstTruthy vs = Str []"
  by (induction vs) simp_all

lemma firstTruthy_cases:
  "firstTruthy vs = Str [] \<or> (firstTruthy vs \<in> set vs \<and> truthy (firstTruthy vs))"
  by (induction vs) auto

lemma mapNormalize_ok:
  "(\<exists>ts. mapNormalize items = Inr ts \<and> length ts = length items)
     \<longleftrightarrow> (\<forall>i \<in> set items. i \<noteq> Null \<and> i \<noteq> Undefined)"
proof (induction items)
  case Nil
  then show ?case by simp
next
  case (Cons x xs)
  show ?case
  proof (cases "x = Null \<or> x = Undefined")
    case True
    then have "normalizeTender_js x = Inl TypeError"
      by (simp add: normalizeTender_js_def)
    with True show ?thesis by auto
  next
    case False
    then obtain t where "normalizeTender_js x = Inr t"
      by (auto simp: normalizeTender_js_def)
    with False Cons show ?thesis
      by (auto split: sum.splits)
  qed
qed

text \<open>On a record that has the declared types the untyped normalizer is the typed one.\<close>

lemma js_or_optStr1: "js_or (optStr a) (Str []) = Str (or_empty a)"
  by (cases a) (simp_all add: js_or_def optStr_def or_empty_def)

lemma js_or_optStr2:
  "js_or (js_or (optStr a) (optStr b)) (Str []) = Str (or_empty (or_else a b))"
  by (cases a; cases b) (simp_all add: js_or_def optStr_def or_empty_def or_else_def)

lemma js_or_optStr3:
  "js_or (js_or (js_or (optStr a) (optStr b)) (optStr c)) (Str [])
     = Str (or_empty (or_else (or_else a b) c))"
  by (cases a; cases b; cases c) (simp_all add: js_or_def optStr_def or_empty_def or_else_def)

lemma normalizeTender_js_typed:
  "normalizeTender_js (toObject raw) = Inr (toJs (normalizeTender raw))"
  by (simp add: normalizeTender_js_def toObject_def toJs_def normalizeTender_def
      js_or_optStr1 js_or_optStr2 js_or_optStr3)

text \<open>
  Claim C5, as the specification words it: normalization never fails, and for every raw
  record, also one whose aliased fields are malformed, the result is a canonical record
  in which each field that cannot be resolved is the empty default. The item
  \<open>{ id: 1, titre: 42 }\<close> has a malformed title, and the result carries the number \<open>42\<close>
  as its title, which is neither a string nor the default: the \<open>||\<close> chain hands on any
  truthy value. And on an item that is \<open>null\<close> the first property read throws.
\<close>

theorem normalizer_malformed_counterexample:
  "normalizeTender_js (Object [(''id'', Num 1), (''titre'', Num 42)]) =
     Inr \<lparr> js_id = Num 1, js_titre = Num 42, js_acheteur = Str [], js_pays = Str [],
           js_region = Str [], js_date_publication = Str [], js_date_cloture = Str [],
           js_portail = Str [], js_lien = Str [], js_est_ats = False \<rparr>
   \<and> normalizeTender_js Null = Inl TypeError"
  by code_simp

text \<open>
  Claim C5, amended. On every item that is not \<open>null\<close> or \<open>undefined\<close>, whatever its
  fields hold, \<open>normalizeTender\<close> returns a record and does not throw; it throws exactly
  on \<open>null\<close> and \<open>undefined\<close>, so a batch is normalized, item for item, exactly when it
  holds neither. In the record returned, each canonical field is the first truthy value
  among its aliases, unchanged and of whatever type, and the empty string when every
  alias is absent or falsy (\<open>undefined\<close>, \<open>null\<close>, \<open>""\<close>, \<open>0\<close>, \<open>false\<close>); \<open>est_ats\<close> is
  \<open>true\<close> exactly for \<open>true\<close>, \<open>1\<close> and \<open>"1"\<close>. On a record of the declared types this
  is the typed normalizer.
\<close>

theorem normalizer_throws_only_on_null:
  "(normalizeTender_js raw = Inl TypeError \<longleftrightarrow> raw = Null \<or> raw = Undefined)
   \<and> (raw \<noteq> Null \<and> raw \<noteq> Undefined \<longrightarrow>
        (\<exists>t. normalizeTender_js raw = Inr t
          \<and> js_id t = propOf raw ''id''
          \<and> (\<forall>f. fieldOfJs f t = firstTruthy (map (propOf raw) (aliasNames f)))
          \<and> (\<forall>f. (\<forall>k \<in> set (aliasNames f). \<not> truthy (propOf raw k))
                 \<longrightarrow> fieldOfJs f t = Str [])
          \<and> (\<forall>f. fieldOfJs f t = Str []
                 \<or> (\<exists>k \<in> set (aliasNames f).
                       fieldOfJs f t = propOf raw k \<and> truthy (propOf raw k)))
          \<and> (js_est_ats t \<longleftrightarrow>
                propOf raw ''est_ats'' = Bool True \<or> propOf raw ''est_ats'' = Num 1
                \<or> propOf raw ''est_ats'' = Str ''1'')))
   \<and> ((\<exists>ts. mapNormalize items = Inr ts \<and> length ts = length items)
        \<longleftrightarrow> (\<forall>i \<in> set items. i \<noteq> Null \<and> i \<noteq> Undefined))
   \<and> normalizeTender_js (toObject typed) = Inr (toJs (normalizeTender typed))"
proof (intro conjI impI)
  show "normalizeTender_js raw = Inl TypeError \<longleftrightarrow> raw = Null \<or> raw = Undefined"
    by (rule normalizeTender_js_error)
next
  assume ok: "raw \<noteq> Null \<and> raw \<noteq> Undefined"
  then obtain t where t: "normalizeTender_js raw = Inr t"
    by (auto simp: normalizeTender_js_def)
  have f: "fieldOfJs f t = firstTruthy (map (propOf raw) (aliasNames f))" for f
    using t by (rule normalizeTender_js_field)
  have d: "fieldOfJs f t = Str []" if "\<forall>k \<in> set (aliasNames f). \<not> truthy (propOf raw k)" for f
    using that by (simp add: f firstTruthy_none)
  have c: "fieldOfJs f t = Str []
      \<or> (\<exists>k \<in> set (aliasNames f). fieldOfJs f t = propOf raw k \<and> truthy (propOf raw k))" for f
    using firstTruthy_cases [of "map (propOf raw) (aliasNames f)"]
    by (auto simp: f)
  have e: "js_est_ats t \<longleftrightarrow>
      propOf raw ''est_ats'' = Bool True \<or> propOf raw ''est_ats'' = Num 1
      \<or> propOf raw ''est_ats'' = Str ''1''"
    by (simp add: normalizeTender_js_rest(1) [OF t] est_ats_of_iff)
  have i: "js_id t = propOf raw ''id''"
    by (rule normalizeTender_js_rest(2) [OF t])
  from t i f d c e
  show "\<exists>t. normalizeTender_js raw = Inr t
          \<and> js_id t = propOf raw ''id''
          \<and> (\<forall>f. fieldOfJs f t = firstTruthy (map (propOf raw) (aliasNames f)))
          \<and> (\<forall>f. (\<forall>k \<in> set (aliasNames f). \<not> truthy (propOf raw k))
                 \<longrightarrow> fieldOfJs f t = Str [])
          \<and> (\<forall>f. fieldOfJs f t = Str []
                 \<or> (\<exists>k \<in> set (aliasNames f).
                       fieldOfJs f t = propOf raw k \<and> truthy (propOf raw k)))
          \<and> (js_est_ats t \<longleftrightarrow>
                propOf raw ''est_ats'' = Bool True \<or> propOf raw ''est_ats'' = Num 1
                \<or> propOf raw ''est_ats'' = Str ''1'')"
    by (intro exI [of _ t] conjI allI impI) blast+
next
  show "(\<exists>ts. mapNormalize items = Inr ts \<and> length ts = length items)
        \<longleftrightarrow> (\<forall>i \<in> set items. i \<noteq> Null \<and> i \<noteq> Undefined)"
    by (rule mapNormalize_ok)
next
  show "normalizeTender_js (toObject typed) = Inr (toJs (normalizeTender typed))"
    by (rule normalizeTender_js_typed)
qed

theorem normalizer_throws_only_on_null_witness:
  "sampleItem \<noteq> Null \<and> sampleItem \<noteq> Undefined
   \<and> \<not> truthy (propOf sampleItem ''titre'') \<and> \<not> truthy (propOf sampleItem ''title'')
   \<and> normalizeTender_js sampleItem \<noteq> Inl TypeError
   \<and> fieldOfJs F_titre (projr (normalizeTender_js sampleItem)) = Str []
   \<and> fieldOfJs F_portail (projr (normalizeTender_js sampleItem)) = Array []
   \<and> \<not> js_est_ats (projr (normalizeTender_js sampleItem))
   \<and> Str ''x'' \<noteq> Null \<and> Str ''x'' \<noteq> Undefined
   \<and> (\<exists>ts. mapNormalize [sampleItem, Str ''x''] = Inr ts \<and> length ts = 2)"
proof -
  note inst = normalizer_throws_only_on_null
    [where raw = sampleItem and items = "[sampleItem, Str ''x'']" and typed = "emptyRaw 1"]
  have ok: "sampleItem \<noteq> Null \<and> sampleItem \<noteq> Undefined"
    by (simp add: sampleItem_def)
  have nt: "\<not> truthy (propOf sampleItem ''titre'') \<and> \<not> truthy (propOf sampleItem ''title'')"
    by (simp add: sampleItem_def)
  have al: "\<forall>k \<in> set (aliasNames F_titre). \<not> truthy (propOf sampleItem k)"
    using nt by simp
  from inst ok have ne: "normalizeTender_js sampleItem \<noteq> Inl TypeError"
    by blast
  from inst ok obtain t where t: "normalizeTender_js sampleItem = Inr t"
    and f: "\<forall>f. fieldOfJs f t = firstTruthy (map (propOf sampleItem) (aliasNames f))"
    and d: "\<forall>f. (\<forall>k \<in> set (aliasNames f). \<not> truthy (propOf sampleItem k))
                 \<longrightarrow> fieldOfJs f t = Str []"
    and e: "js_est_ats t \<longleftrightarrow>
                propOf sampleItem ''est_ats'' = Bool True \<or> propOf sampleItem ''est_ats'' = Num 1
                \<or> propOf sampleItem ''est_ats'' = Str ''1''"
    by blast
  from d al have r1: "fieldOfJs F_titre t = Str []"
    by blast
  from f have "fieldOfJs F_portail t
      = firstTruthy (map (propOf sampleItem) (aliasNames F_portail))"
    by (rule spec)
  then have r2: "fieldOfJs F_portail t = Array []"
    by (simp add: sampleItem_def)
  from e have r3: "\<not> js_est_ats t"
    by (simp add: sampleItem_def)
  have ok2: "Str ''x'' \<noteq> Null \<and> Str ''x'' \<noteq> Undefined"
    by simp
  with ok have "\<forall>i \<in> set [sampleItem, Str ''x'']. i \<noteq> Null \<and> i \<noteq> Undefined"
    by simp
  with inst have "\<exists>ts. mapNormalize [sampleItem, Str ''x''] = Inr ts
      \<and> length ts = length [sampleItem, Str ''x'']"
    by blast
  then obtain ts where "mapNormalize [sampleItem, Str ''x''] = Inr ts"
    and "length ts = length [sampleItem, Str ''x'']"
    by (elim exE conjE)
  then have "mapNormalize [sampleItem, Str ''x''] = Inr ts \<and> length ts = 2"
    by (simp only: list.size One_nat_def) simp
  then have r4: "\<exists>ts. mapNormalize [sampleItem, Str ''x''] = Inr ts \<and> length ts = 2"
    by (rule exI)
  from ok nt ne r1 r2 r3 ok2 r4 show ?thesis
    by (simp add: t)
qed

text \<open>
  Claim C9. \<open>est_ats\<close> of the normalized record is \<open>true\<close> exactly when the raw field
  is the boolean \<open>true\<close>, the number \<open>1\<close> or the string \<open>"1"\<close>; the string \<open>"true"\<close>,
  the number \<open>2\<close>, \<open>null\<close> and an absent field all give \<open>false\<close>.
\<close>

theorem est_ats_true_iff:
  "(est_ats (normalizeTender raw) \<longleftrightarrow>
      raw_est_ats raw = Bool True \<or> raw_est_ats raw = Num 1 \<or> raw_est_ats raw = Str ''1'')
   \<and> \<not> est_ats (normalizeTender (raw\<lparr>raw_est_ats := Str ''true''\<rparr>))
   \<and> \<not> est_ats (normalizeTender (raw\<lparr>raw_est_ats := Num 2\<rparr>))
   \<and> \<not> est_ats (normalizeTender (raw\<lparr>raw_est_ats := Null\<rparr>))
   \<and> \<not> est_ats (normalizeTender (raw\<lparr>raw_est_ats := Undefined\<rparr>))
   \<and> \<not> est_ats (normalizeTender (raw\<lparr>raw_est_ats := Bool False\<rparr>))"
  by (simp add: normalizeTender_def est_ats_of_iff)

section \<open>The filter predicates\<close>

text \<open>Both memos are chains of \<open>filter\<close> calls, each behind its own guard; a chain of
  filters is one filter by the conjunction of the conditions.\<close>

lemma visibleTenders_filter:
  "visibleTenders ts p c a query sf =
     filter (\<lambda>t. (p = ''ALL'' \<or> trim (portail t) = p)
                \<and> (c = ''ALL'' \<or> trim (pays t) = c)
                \<and> (a \<longrightarrow> est_ats t)
                \<and> (toLowerCase (trim query) = []
                    \<or> textMatch sf (toLowerCase (trim query)) t)) ts"
  by (auto simp: visibleTenders_def Let_def intro: filter_cong)

lemma filterRows_filter:
  "filterRows rs c pf q qf qv =
     filter (\<lambda>t. (c = ''ALL'' \<or> toUpperCase (or_empty (country t)) = toUpperCase c)
                \<and> (pf = ''ALL'' \<or> toUpperCase (portal t) = toUpperCase pf
                                  \<or> toUpperCase (source t) = toUpperCase pf)
                \<and> (trim q = [] \<or> list_all (termMatches t) (queryTerms q))
                \<and> (trim qv = []
                    \<or> includes_js (toLowerCase (or_empty (quickFieldOf qf t)))
                         (toLowerCase (trim qv)))) rs"
  by (auto simp: filterRows_def Let_def intro: filter_cong)

lemma toLowerCase_Nil_iff: "toLowerCase s = [] \<longleftrightarrow> s = []"
  by (simp add: toLowerCase_def)

lemma trim_Nil: "trim [] = []"
  by (simp add: trim_def)

lemma set_insert_cmp: "set (insert_cmp cmp x xs) = insert x (set xs)"
  by (induction xs) auto

lemma set_sort_cmp: "set (sort_cmp cmp xs) = set xs"
  by (induction xs) (simp_all add: sort_cmp_def set_insert_cmp)

lemma length_insert_cmp: "length (insert_cmp cmp x xs) = Suc (length xs)"
  by (induction xs) auto

lemma length_sort_cmp: "length (sort_cmp cmp xs) = length xs"
  by (induction xs) (simp_all add: sort_cmp_def length_insert_cmp)

lemma set_filteredTenders:
  "set (filteredTenders rs c pf q qf qv st) = set (filterRows rs c pf q qf qv)"
  by (simp add: filteredTenders_def set_sort_cmp)

subsection \<open>The text match\<close>

text \<open>
  Claim C2, as the specification words it: with \<open>search_field = title\<close> a tender is kept
  exactly when its lower-cased title contains the lower-cased query, and no field other
  than title and buyer takes part in the text match. In the dashboard, with the query
  \<open>" a"\<close> (not empty after trimming) the tender titled \<open>"a"\<close> is kept, although its title
  does not contain \<open>" a"\<close>: the needle is the query trimmed, then lower-cased. In the
  table, which has no search field, the query \<open>"seao"\<close> keeps a row whose title and buyer
  do not contain it: its source does.
\<close>

theorem text_match_untrimmed_counterexample:
  "visibleTenders [normalizeTender ((emptyRaw 1)\<lparr>raw_titre := Some ''a''\<rparr>)]
       ''ALL'' ''ALL'' False '' a'' SF_title
     = [normalizeTender ((emptyRaw 1)\<lparr>raw_titre := Some ''a''\<rparr>)]
   \<and> trim '' a'' \<noteq> []
   \<and> \<not> includes_js
         (toLowerCase (titre (normalizeTender ((emptyRaw 1)\<lparr>raw_titre := Some ''a''\<rparr>))))
         (toLowerCase '' a'')
   \<and> filteredTenders [sampleRow 1 ''Portail web'' (Some ''CA'') None]
       ''ALL'' ''ALL'' ''seao'' Q_title [] initialSortState
     = [sampleRow 1 ''Portail web'' (Some ''CA'') None]
   \<and> \<not> includes_js (toLowerCase (title (sampleRow 1 ''Portail web'' (Some ''CA'') None)))
         (toLowerCase ''seao'')
   \<and> \<not> includes_js
         (toLowerCase (or_empty (buyer (sampleRow 1 ''Portail web'' (Some ''CA'') None))))
         (toLowerCase ''seao'')"
  by code_simp

text \<open>
  Claim C2, amended. For every tender list and every query that is not empty after
  trimming, \<open>visibleTenders\<close> keeps, of the tenders that pass the other filters, with
  \<open>search_field = title\<close> exactly those whose lower-cased title contains the trimmed,
  lower-cased query as a substring; with \<open>buyer\<close>, exactly those whose lower-cased buyer
  contains it; with \<open>title_buyer\<close>, exactly those where the title or the buyer contains
  it. No other field takes part there: two tenders with the same title and the same buyer
  are both kept or both dropped by the text match. The table (\<open>filteredTenders\<close>) has no
  search field: it keeps, of the rows that pass the other filters, exactly those in which
  every white-space separated, lower-cased term of the query occurs in the title, the
  buyer, the source or the portal.
\<close>

theorem text_match_by_search_field:
  assumes "trim query \<noteq> []"
  shows
    "visibleTenders ts p c a query SF_title =
       filter (\<lambda>t. includes_js (toLowerCase (titre t)) (toLowerCase (trim query)))
         (visibleTenders ts p c a [] SF_title)
     \<and> visibleTenders ts p c a query SF_buyer =
       filter (\<lambda>t. includes_js (toLowerCase (acheteur t)) (toLowerCase (trim query)))
         (visibleTenders ts p c a [] SF_buyer)
     \<and> visibleTenders ts p c a query SF_title_buyer =
       filter (\<lambda>t. includes_js (toLowerCase (titre t)) (toLowerCase (trim query))
                  \<or> includes_js (toLowerCase (acheteur t)) (toLowerCase (trim query)))
         (visibleTenders ts p c a [] SF_title_buyer)
     \<and> visibleTenders ts ''ALL'' ''ALL'' False [] sf = ts
     \<and> (titre t = titre t' \<and> acheteur t = acheteur t' \<longrightarrow>
          (visibleTenders [t] ''ALL'' ''ALL'' False query sf = []
           \<longleftrightarrow> visibleTenders [t'] ''ALL'' ''ALL'' False query sf = []))
     \<and> filterRows rs cf pf query qf qv =
       filter (\<lambda>r. \<forall>term \<in> set (queryTerms query).
                    includes_js (toLowerCase (title r)) term
                    \<or> includes_js (toLowerCase (or_empty (buyer r))) term
                    \<or> includes_js (toLowerCase (source r)) term
                    \<or> includes_js (toLowerCase (portal r)) term)
         (filterRows rs cf pf [] qf qv)
     \<and> set (filteredTenders rs cf pf query qf qv st) = set (filterRows rs cf pf query qf qv)"
proof -
  from assms have q: "toLowerCase (trim query) \<noteq> []"
    by (simp add: toLowerCase_Nil_iff)
  have split: "visibleTenders ts p c a query sf' =
      filter (textMatch sf' (toLowerCase (trim query))) (visibleTenders ts p c a [] sf')" for sf'
    using q by (simp add: visibleTenders_def Let_def trim_Nil toLowerCase_def)
  have tm: "textMatch SF_title (toLowerCase (trim query)) =
        (\<lambda>t. includes_js (toLowerCase (titre t)) (toLowerCase (trim query)))"
      "textMatch SF_buyer (toLowerCase (trim query)) =
        (\<lambda>t. includes_js (toLowerCase (acheteur t)) (toLowerCase (trim query)))"
      "textMatch SF_title_buyer (toLowerCase (trim query)) =
        (\<lambda>t. includes_js (toLowerCase (titre t)) (toLowerCase (trim query))
                  \<or> includes_js (toLowerCase (acheteur t)) (toLowerCase (trim query)))"
    by (simp_all add: fun_eq_iff textMatch_def hit_def)
  have 1: "visibleTenders ts p c a query SF_title =
       filter (\<lambda>t. includes_js (toLowerCase (titre t)) (toLowerCase (trim query)))
         (visibleTenders ts p c a [] SF_title)"
    by (simp only: split [of SF_title] tm)
  have 2: "visibleTenders ts p c a query SF_buyer =
       filter (\<lambda>t. includes_js (toLowerCase (acheteur t)) (toLowerCase (trim query)))
         (visibleTenders ts p c a [] SF_buyer)"
    by (simp only: split [of SF_buyer] tm)
  have 3: "visibleTenders ts p c a query SF_title_buyer =
       filter (\<lambda>t. includes_js (toLowerCase (titre t)) (toLowerCase (trim query))
                  \<or> includes_js (toLowerCase (acheteur t)) (toLowerCase (trim query)))
         (visibleTenders ts p c a [] SF_title_buyer)"
    by (simp only: split [of SF_title_buyer] tm)
  have 4: "visibleTenders ts ''ALL'' ''ALL'' False [] sf = ts"
    by (simp add: visibleTenders_def trim_Nil toLowerCase_def)
  have 5: "titre t = titre t' \<and> acheteur t = acheteur t' \<longrightarrow>
          (visibleTenders [t] ''ALL'' ''ALL'' False query sf = []
           \<longleftrightarrow> visibleTenders [t'] ''ALL'' ''ALL'' False query sf = [])"
    by (simp add: visibleTenders_filter textMatch_def hit_def)
  have 6: "filterRows rs cf pf query qf qv =
       filter (\<lambda>r. \<forall>term \<in> set (queryTerms query).
                    includes_js (toLowerCase (title r)) term
                    \<or> includes_js (toLowerCase (or_empty (buyer r))) term
                    \<or> includes_js (toLowerCase (source r)) term
                    \<or> includes_js (toLowerCase (portal r)) term)
         (filterRows rs cf pf [] qf qv)"
    using assms
    by (auto simp: filterRows_filter trim_Nil list_all_iff termMatches_def intro: filter_cong)
  have 7: "set (filteredTenders rs cf pf query qf qv st) = set (filterRows rs cf pf query qf qv)"
    by (rule set_filteredTenders)
  from 1 2 3 4 5 6 7 show ?thesis by (intro conjI)
qed

theorem text_match_by_search_field_witness:
  "trim '' Crm '' \<noteq> []
   \<and> map id_tender (visibleTenders sampleTenders ''ALL'' ''ALL'' False '' Crm '' SF_title) = [1]
   \<and> map id_tender (visibleTenders sampleTenders ''ALL'' ''ALL'' False '' Crm '' SF_buyer) = [2]
   \<and> map id_tender (visibleTenders sampleTenders ''ALL'' ''ALL'' False '' Crm '' SF_title_buyer)
       = [1, 2]
   \<and> titre (hd sampleTenders) = titre ((hd sampleTenders)\<lparr>pays := ''FR''\<rparr>)
   \<and> acheteur (hd sampleTenders) = acheteur ((hd sampleTenders)\<lparr>pays := ''FR''\<rparr>)
   \<and> ((visibleTenders [hd sampleTenders] ''ALL'' ''ALL'' False '' Crm '' SF_buyer = [])
        \<longleftrightarrow> (visibleTenders [(hd sampleTenders)\<lparr>pays := ''FR''\<rparr>]
              ''ALL'' ''ALL'' False '' Crm '' SF_buyer = []))
   \<and> trim ''erp  SEAO'' \<noteq> []
   \<and> map id_row (filterRows sampleRows ''ALL'' ''ALL'' ''erp  SEAO'' Q_title []) = [2]"
proof -
  have h: "trim '' Crm '' \<noteq> []"
    by code_simp
  have h': "trim ''erp  SEAO'' \<noteq> []"
    by code_simp
  note inst' = text_match_by_search_field [OF h', where ts = sampleTenders
      and p = "''ALL''" and c = "''ALL''" and a = False and sf = SF_title
      and t = "hd sampleTenders" and t' = "hd sampleTenders"
      and rs = sampleRows and cf = "''ALL''" and pf = "''ALL''" and qf = Q_title
      and qv = "[]" and st = initialSortState]
  from inst' have "filterRows sampleRows ''ALL'' ''ALL'' ''erp  SEAO'' Q_title [] =
       filter (\<lambda>r. \<forall>term \<in> set (queryTerms ''erp  SEAO'').
                    includes_js (toLowerCase (title r)) term
                    \<or> includes_js (toLowerCase (or_empty (buyer r))) term
                    \<or> includes_js (toLowerCase (source r)) term
                    \<or> includes_js (toLowerCase (portal r)) term)
         (filterRows sampleRows ''ALL'' ''ALL'' [] Q_title [])"
    by (elim conjE)
  moreover have "map id_row (filter (\<lambda>r. \<forall>term \<in> set (queryTerms ''erp  SEAO'').
                    includes_js (toLowerCase (title r)) term
                    \<or> includes_js (toLowerCase (or_empty (buyer r))) term
                    \<or> includes_js (toLowerCase (source r)) term
                    \<or> includes_js (toLowerCase (portal r)) term)
         (filterRows sampleRows ''ALL'' ''ALL'' [] Q_title [])) = [2]"
    by code_simp
  ultimately have r5:
    "map id_row (filterRows sampleRows ''ALL'' ''ALL'' ''erp  SEAO'' Q_title []) = [2]"
    by simp
  note inst = text_match_by_search_field [OF h, where ts = sampleTenders
      and p = "''ALL''" and c = "''ALL''" and a = False
      and t = "hd sampleTenders" and t' = "(hd sampleTenders)\<lparr>pays := ''FR''\<rparr>"
      and rs = sampleRows and cf = "''ALL''" and pf = "''ALL''" and qf = Q_title
      and qv = "[]" and st = initialSortState]
  have a: "visibleTenders sampleTenders ''ALL'' ''ALL'' False [] sf = sampleTenders" for sf
    using inst [where sf = sf] by (elim conjE)
  have e1: "map id_tender (filter (\<lambda>t. includes_js (toLowerCase (titre t))
        (toLowerCase (trim '' Crm ''))) sampleTenders) = [1]"
    by code_simp
  have e2: "map id_tender (filter (\<lambda>t. includes_js (toLowerCase (acheteur t))
        (toLowerCase (trim '' Crm ''))) sampleTenders) = [2]"
    by code_simp
  have e3: "map id_tender (filter (\<lambda>t. includes_js (toLowerCase (titre t))
        (toLowerCase (trim '' Crm ''))
      \<or> includes_js (toLowerCase (acheteur t)) (toLowerCase (trim '' Crm ''))) sampleTenders)
      = [1, 2]"
    by code_simp
  from inst [where sf = SF_title] have
    "visibleTenders sampleTenders ''ALL'' ''ALL'' False '' Crm '' SF_title =
       filter (\<lambda>t. includes_js (toLowerCase (titre t)) (toLowerCase (trim '' Crm '')))
         (visibleTenders sampleTenders ''ALL'' ''ALL'' False [] SF_title)"
    by (elim conjE)
  with e1 have r1:
    "map id_tender (visibleTenders sampleTenders ''ALL'' ''ALL'' False '' Crm '' SF_title) = [1]"
    by (simp only: a)
  from inst [where sf = SF_buyer] have
    "visibleTenders sampleTenders ''ALL'' ''ALL'' False '' Crm '' SF_buyer =
       filter (\<lambda>t. includes_js (toLowerCase (acheteur t)) (toLowerCase (trim '' Crm '')))
         (visibleTenders sampleTenders ''ALL'' ''ALL'' False [] SF_buyer)"
    by (elim conjE)
  with e2 have r2:
    "map id_tender (visibleTenders sampleTenders ''ALL'' ''ALL'' False '' Crm '' SF_buyer) = [2]"
    by (simp only: a)
  from inst [where sf = SF_title_buyer] have
    "visibleTenders sampleTenders ''ALL'' ''ALL'' False '' Crm '' SF_title_buyer =
       filter (\<lambda>t. includes_js (toLowerCase (titre t)) (toLowerCase (trim '' Crm ''))
                  \<or> includes_js (toLowerCase (acheteur t)) (toLowerCase (trim '' Crm '')))
         (visibleTenders sampleTenders ''ALL'' ''ALL'' False [] SF_title_buyer)"
    by (elim conjE)
  with e3 have r3:
    "map id_tender (visibleTenders sampleTenders ''ALL'' ''ALL'' False '' Crm '' SF_title_buyer)
       = [1, 2]"
    by (simp only: a)
  have same: "titre (hd sampleTenders) = titre ((hd sampleTenders)\<lparr>pays := ''FR''\<rparr>)
      \<and> acheteur (hd sampleTenders) = acheteur ((hd sampleTenders)\<lparr>pays := ''FR''\<rparr>)"
    by simp
  from inst [where sf = SF_buyer] have
    "titre (hd sampleTenders) = titre ((hd sampleTenders)\<lparr>pays := ''FR''\<rparr>)
      \<and> acheteur (hd sampleTenders) = acheteur ((hd sampleTenders)\<lparr>pays := ''FR''\<rparr>) \<longrightarrow>
     ((visibleTenders [hd sampleTenders] ''ALL'' ''ALL'' False '' Crm '' SF_buyer = [])
        \<longleftrightarrow> (visibleTenders [(hd sampleTenders)\<lparr>pays := ''FR''\<rparr>]
              ''ALL'' ''ALL'' False '' Crm '' SF_buyer = []))"
    by (elim conjE)
  with same have r4:
    "(visibleTenders [hd sampleTenders] ''ALL'' ''ALL'' False '' Crm '' SF_buyer = [])
        \<longleftrightarrow> (visibleTenders [(hd sampleTenders)\<lparr>pays := ''FR''\<rparr>]
              ''ALL'' ''ALL'' False '' Crm '' SF_buyer = [])"
    by (rule_tac mp)
  from h r1 r2 r3 same r4 h' r5 show ?thesis by (intro conjI) (elim conjE, assumption)+
qed

subsection \<open>The country filter\<close>

text \<open>
  Claim C3, as the specification words it: with a country option other than \<open>"ALL"\<close>
  the tenders kept are exactly those whose country field is an exact match of the
  option. The dashboard compares the \<^emph>\<open>trimmed\<close> field, so the tender with country
  \<open>" CA "\<close> passes the option \<open>"CA"\<close>; the table compares the upper-cased field with the
  upper-cased option, so the row with country \<open>"ca"\<close> passes the option \<open>"CA"\<close>.
\<close>

theorem country_exact_match_counterexample:
  "visibleTenders [normalizeTender ((emptyRaw 2)\<lparr>raw_pays := Some '' CA ''\<rparr>)]
       ''ALL'' ''CA'' False [] SF_title_buyer
     = [normalizeTender ((emptyRaw 2)\<lparr>raw_pays := Some '' CA ''\<rparr>)]
   \<and> pays (normalizeTender ((emptyRaw 2)\<lparr>raw_pays := Some '' CA ''\<rparr>)) \<noteq> ''CA''
   \<and> filteredTenders [sampleRow 1 ''Portail web'' (Some ''ca'') None]
       ''CA'' ''ALL'' [] Q_title [] initialSortState
     = [sampleRow 1 ''Portail web'' (Some ''ca'') None]
   \<and> country (sampleRow 1 ''Portail web'' (Some ''ca'') None) \<noteq> Some ''CA''"
  by code_simp

text \<open>
  Claim C3, amended. With a country option other than \<open>"ALL"\<close>, the tenders kept are,
  of those that pass the other conditions, exactly the ones whose country equals the
  option after the field is trimmed (the dashboard, \<open>visibleTenders\<close>), or whose country,
  \<open>null\<close> read as the empty string, equals the option when both are upper-cased (the
  table, \<open>filteredTenders\<close>). With the option \<open>"ALL"\<close> the country takes no part: the
  result is the list filtered by the other conditions alone.
\<close>

theorem country_filter_semantics:
  "(c \<noteq> ''ALL'' \<longrightarrow>
      visibleTenders ts p c a q sf =
        filter (\<lambda>t. trim (pays t) = c) (visibleTenders ts p ''ALL'' a q sf))
   \<and> visibleTenders ts p ''ALL'' a q sf =
        filter (\<lambda>t. (p = ''ALL'' \<or> trim (portail t) = p)
                   \<and> (\<not> a \<or> est_ats t)
                   \<and> (toLowerCase (trim q) = [] \<or> textMatch sf (toLowerCase (trim q)) t)) ts
   \<and> (c \<noteq> ''ALL'' \<longrightarrow>
      filterRows rs c pf qy qf qv =
        filter (\<lambda>t. toUpperCase (or_empty (country t)) = toUpperCase c)
          (filterRows rs ''ALL'' pf qy qf qv))
   \<and> (c \<noteq> ''ALL'' \<longrightarrow>
      set (filteredTenders rs c pf qy qf qv st) =
        {t \<in> set (filteredTenders rs ''ALL'' pf qy qf qv st).
           toUpperCase (or_empty (country t)) = toUpperCase c})
   \<and> filterRows rs ''ALL'' pf qy qf qv =
        filter (\<lambda>t. (pf = ''ALL'' \<or> toUpperCase (portal t) = toUpperCase pf
                                    \<or> toUpperCase (source t) = toUpperCase pf)
                   \<and> (trim qy = [] \<or> list_all (termMatches t) (queryTerms qy))
                   \<and> (trim qv = []
                       \<or> includes_js (toLowerCase (or_empty (quickFieldOf qf t)))
                            (toLowerCase (trim qv)))) rs
   \<and> set (filteredTenders rs ''ALL'' pf qy qf qv st) = set (filterRows rs ''ALL'' pf qy qf qv)"
proof (intro conjI impI)
  assume "c \<noteq> ''ALL''"
  then show "visibleTenders ts p c a q sf =
        filter (\<lambda>t. trim (pays t) = c) (visibleTenders ts p ''ALL'' a q sf)"
    by (auto simp: visibleTenders_filter intro: filter_cong)
next
  show "visibleTenders ts p ''ALL'' a q sf =
        filter (\<lambda>t. (p = ''ALL'' \<or> trim (portail t) = p)
                   \<and> (\<not> a \<or> est_ats t)
                   \<and> (toLowerCase (trim q) = [] \<or> textMatch sf (toLowerCase (trim q)) t)) ts"
    by (auto simp: visibleTenders_filter intro: filter_cong)
next
  assume "c \<noteq> ''ALL''"
  then show "filterRows rs c pf qy qf qv =
        filter (\<lambda>t. toUpperCase (or_empty (country t)) = toUpperCase c)
          (filterRows rs ''ALL'' pf qy qf qv)"
    by (auto simp: filterRows_filter intro: filter_cong)
next
  assume "c \<noteq> ''ALL''"
  then show "set (filteredTenders rs c pf qy qf qv st) =
        {t \<in> set (filteredTenders rs ''ALL'' pf qy qf qv st).
           toUpperCase (or_empty (country t)) = toUpperCase c}"
    by (auto simp: set_filteredTenders filterRows_filter)
next
  show "filterRows rs ''ALL'' pf qy qf qv =
        filter (\<lambda>t. (pf = ''ALL'' \<or> toUpperCase (portal t) = toUpperCase pf
                                    \<or> toUpperCase (source t) = toUpperCase pf)
                   \<and> (trim qy = [] \<or> list_all (termMatches t) (queryTerms qy))
                   \<and> (trim qv = []
                       \<or> includes_js (toLowerCase (or_empty (quickFieldOf qf t)))
                            (toLowerCase (trim qv)))) rs"
    by (auto simp: filterRows_filter intro: filter_cong)
next
  show "set (filteredTenders rs ''ALL'' pf qy qf qv st) = set (filterRows rs ''ALL'' pf qy qf qv)"
    by (rule set_filteredTenders)
qed

theorem country_filter_semantics_witness:
  "''CA'' \<noteq> ''ALL''
   \<and> map id_tender (visibleTenders sampleTenders ''ALL'' ''CA'' False [] SF_title_buyer) = [1, 2]
   \<and> map id_row (filterRows sampleRows ''CA'' ''ALL'' [] Q_title []) = [1, 3]"
proof -
  have h: "''CA'' \<noteq> ''ALL''"
    by simp
  note inst = country_filter_semantics [where c = "''CA''" and ts = sampleTenders
      and p = "''ALL''" and a = False and q = "[]" and sf = SF_title_buyer
      and rs = sampleRows and pf = "''ALL''" and qy = "[]" and qf = Q_title and qv = "[]"
      and st = initialSortState]
  from inst h have v: "visibleTenders sampleTenders ''ALL'' ''CA'' False [] SF_title_buyer =
        filter (\<lambda>t. trim (pays t) = ''CA'')
          (visibleTenders sampleTenders ''ALL'' ''ALL'' False [] SF_title_buyer)"
    by (elim conjE impE)
  from inst h have f: "filterRows sampleRows ''CA'' ''ALL'' [] Q_title [] =
        filter (\<lambda>t. toUpperCase (or_empty (country t)) = toUpperCase ''CA'')
          (filterRows sampleRows ''ALL'' ''ALL'' [] Q_title [])"
    by (elim conjE impE)
  have e1: "map id_tender (filter (\<lambda>t. trim (pays t) = ''CA'')
          (visibleTenders sampleTenders ''ALL'' ''ALL'' False [] SF_title_buyer)) = [1, 2]"
    by code_simp
  have e2: "map id_row (filter (\<lambda>t. toUpperCase (or_empty (country t)) = toUpperCase ''CA'')
          (filterRows sampleRows ''ALL'' ''ALL'' [] Q_title [])) = [1, 3]"
    by code_simp
  from e1 have r1:
    "map id_tender (visibleTenders sampleTenders ''ALL'' ''CA'' False [] SF_title_buyer) = [1, 2]"
    by (simp only: v)
  from e2 have r2: "map id_row (filterRows sampleRows ''CA'' ''ALL'' [] Q_title []) = [1, 3]"
    by (simp only: f)
  from h r1 r2 show ?thesis
    by (intro conjI)
qed

subsection \<open>The ATS switch\<close>

text \<open>
  Claim C7. With \<open>ats_only\<close> on, every tender of the result is ATS-tagged, and the
  result is the ATS-tagged part of what the same filters give with the switch off. With
  \<open>ats_only\<close> off the switch removes nothing: the result is the list filtered by the
  portal, country and text conditions alone.
\<close>

theorem ats_only_semantics:
  "(\<forall>t \<in> set (visibleTenders ts p c True q sf). est_ats t)
   \<and> visibleTenders ts p c True q sf = filter est_ats (visibleTenders ts p c False q sf)
   \<and> visibleTenders ts p c False q sf =
        filter (\<lambda>t. (p = ''ALL'' \<or> trim (portail t) = p)
                   \<and> (c = ''ALL'' \<or> trim (pays t) = c)
                   \<and> (toLowerCase (trim q) = [] \<or> textMatch sf (toLowerCase (trim q)) t)) ts
   \<and> visibleTenders ts ''ALL'' ''ALL'' False [] sf = ts"
proof (intro conjI ballI)
  fix t
  assume "t \<in> set (visibleTenders ts p c True q sf)"
  then show "est_ats t"
    by (simp add: visibleTenders_filter)
next
  show "visibleTenders ts p c True q sf = filter est_ats (visibleTenders ts p c False q sf)"
    by (auto simp: visibleTenders_filter intro: filter_cong)
next
  show "visibleTenders ts p c False q sf =
        filter (\<lambda>t. (p = ''ALL'' \<or> trim (portail t) = p)
                   \<and> (c = ''ALL'' \<or> trim (pays t) = c)
                   \<and> (toLowerCase (trim q) = [] \<or> textMatch sf (toLowerCase (trim q)) t)) ts"
    by (simp add: visibleTenders_filter)
next
  show "visibleTenders ts ''ALL'' ''ALL'' False [] sf = ts"
    by (simp add: visibleTenders_def trim_Nil toLowerCase_def)
qed

theorem ats_only_semantics_witness:
  "normalizeTender (sampleRaws ! 2)
       \<in> set (visibleTenders sampleTenders ''ALL'' ''ALL'' True [] SF_title)
   \<and> est_ats (normalizeTender (sampleRaws ! 2))
   \<and> map id_tender (visibleTenders sampleTenders ''ALL'' ''ALL'' True [] SF_title) = [1, 3]
   \<and> map id_tender (visibleTenders sampleTenders ''ALL'' ''ALL'' False [] SF_title) = [1, 2, 3]"
proof -
  note inst = ats_only_semantics [where ts = sampleTenders and p = "''ALL''"
      and c = "''ALL''" and q = "[]" and sf = SF_title]
  have m: "normalizeTender (sampleRaws ! 2)
       \<in> set (visibleTenders sampleTenders ''ALL'' ''ALL'' True [] SF_title)"
    by code_simp
  from inst have "\<forall>t \<in> set (visibleTenders sampleTenders ''ALL'' ''ALL'' True [] SF_title).
      est_ats t"
    by (elim conjE)
  with m have e: "est_ats (normalizeTender (sampleRaws ! 2))"
    by (rule_tac bspec)
  from inst have off: "visibleTenders sampleTenders ''ALL'' ''ALL'' False [] SF_title
      = sampleTenders"
    by (elim conjE)
  from inst have on: "visibleTenders sampleTenders ''ALL'' ''ALL'' True [] SF_title
      = filter est_ats (visibleTenders sampleTenders ''ALL'' ''ALL'' False [] SF_title)"
    by (elim conjE)
  have e1: "map id_tender (filter est_ats sampleTenders) = [1, 3]"
    by code_simp
  have e2: "map id_tender sampleTenders = [1, 2, 3]"
    by code_simp
  from e1 have r1:
    "map id_tender (visibleTenders sampleTenders ''ALL'' ''ALL'' True [] SF_title) = [1, 3]"
    by (simp only: on off)
  from e2 have r2:
    "map id_tender (visibleTenders sampleTenders ''ALL'' ''ALL'' False [] SF_title) = [1, 2, 3]"
    by (simp only: off)
  from m e r1 r2 show ?thesis
    by (intro conjI)
qed

section \<open>The default order of the table\<close>

text \<open>The insertion sort yields a list sorted by a relation \<open>R\<close> as soon as \<open>R\<close> is total
  and transitive and the comparator answers "not after" exactly on \<open>R\<close>.\<close>

lemma sorted_wrt_insert_cmp:
  assumes cmp: "\<And>x y. cmp x y \<le> 0 \<longleftrightarrow> R x y"
    and total: "\<And>x y. R x y \<or> R y x"
    and trans: "\<And>x y z. R x y \<Longrightarrow> R y z \<Longrightarrow> R x z"
  shows "sorted_wrt R xs \<Longrightarrow> sorted_wrt R (insert_cmp cmp x xs)"
proof (induction xs)
  case Nil
  then show ?case by simp
next
  case (Cons y ys)
  show ?case
  proof (cases "cmp x y \<le> 0")
    case True
    then have xy: "R x y" by (simp add: cmp)
    have "R x z" if "z \<in> set ys" for z
      using Cons.prems that xy trans by auto
    with True xy Cons.prems show ?thesis by simp
  next
    case False
    then have "\<not> R x y" by (simp add: cmp)
    with total have yx: "R y x" by blast
    from Cons have "sorted_wrt R (insert_cmp cmp x ys)" by simp
    with False yx Cons.prems show ?thesis
      by (auto simp: set_insert_cmp)
  qed
qed

lemma sorted_wrt_sort_cmp:
  assumes "\<And>x y. cmp x y \<le> 0 \<longleftrightarrow> R x y"
    and "\<And>x y. R x y \<or> R y x"
    and "\<And>x y z. R x y \<Longrightarrow> R y z \<Longrightarrow> R x z"
  shows "sorted_wrt R (sort_cmp cmp xs)"
proof (induction xs)
  case Nil
  then show ?case by (simp add: sort_cmp_def)
next
  case (Cons x xs)
  have "sort_cmp cmp (x # xs) = insert_cmp cmp x (sort_cmp cmp xs)"
    by (simp add: sort_cmp_def)
  with Cons show ?case
    by (simp add: sorted_wrt_insert_cmp [where R = R, OF assms])
qed

lemma compareRows_initial:
  "compareRows initialSortState a b \<le> 0
     \<longleftrightarrow> or_empty (published_at b) \<le> or_empty (published_at a)"
  by (auto simp: compareRows_def initialSortState_def cmp_str_def Let_def split: if_splits)

lemma filteredTenders_initial_sorted:
  "sorted_wrt (\<lambda>a b. or_empty (published_at b) \<le> or_empty (published_at a))
     (filteredTenders rs c pf q qf qv initialSortState)"
  unfolding filteredTenders_def
  by (rule sorted_wrt_sort_cmp) (auto simp: compareRows_initial)

text \<open>
  Claim C6. As long as no sort key has been chosen (\<open>sortState\<close> has its initial value,
  \<open>published_at\<close> descending), the table lists the filtered tenders by \<open>published_at\<close>
  in descending order, a missing date read as the empty string as the comparator does:
  in every adjacent pair the earlier row's date is greater than or equal to the later
  row's. The listing holds the filtered rows, all of them and no others.
\<close>

theorem default_listing_published_at_descending:
  "(\<forall>i. Suc i < length (filteredTenders rs c pf q qf qv initialSortState) \<longrightarrow>
        or_empty (published_at (filteredTenders rs c pf q qf qv initialSortState ! Suc i))
          \<le> or_empty (published_at (filteredTenders rs c pf q qf qv initialSortState ! i)))
   \<and> set (filteredTenders rs c pf q qf qv initialSortState) = set (filterRows rs c pf q qf qv)
   \<and> length (filteredTenders rs c pf q qf qv initialSortState)
       = length (filterRows rs c pf q qf qv)"
proof (intro conjI allI impI)
  fix i
  assume "Suc i < length (filteredTenders rs c pf q qf qv initialSortState)"
  with filteredTenders_initial_sorted [of rs c pf q qf qv]
  show "or_empty (published_at (filteredTenders rs c pf q qf qv initialSortState ! Suc i))
          \<le> or_empty (published_at (filteredTenders rs c pf q qf qv initialSortState ! i))"
    by (simp add: sorted_wrt_iff_nth_less)
next
  show "set (filteredTenders rs c pf q qf qv initialSortState) = set (filterRows rs c pf q qf qv)"
    by (rule set_filteredTenders)
next
  show "length (filteredTenders rs c pf q qf qv initialSortState)
       = length (filterRows rs c pf q qf qv)"
    by (simp add: filteredTenders_def length_sort_cmp)
qed

theorem default_listing_published_at_descending_witness:
  "Suc 0 < length (filteredTenders sampleRows ''ALL'' ''ALL'' [] Q_title [] initialSortState)
   \<and> or_empty (published_at
        (filteredTenders sampleRows ''ALL'' ''ALL'' [] Q_title [] initialSortState ! Suc 0))
       \<le> or_empty (published_at
        (filteredTenders sampleRows ''ALL'' ''ALL'' [] Q_title [] initialSortState ! 0))
   \<and> map published_at (filteredTenders sampleRows ''ALL'' ''ALL'' [] Q_title [] initialSortState)
       = [Some ''2024-03-02'', Some ''2024-01-15'', None]"
proof -
  have h: "Suc 0 < length
      (filteredTenders sampleRows ''ALL'' ''ALL'' [] Q_title [] initialSortState)"
    by code_simp
  from default_listing_published_at_descending
    [of sampleRows "''ALL''" "''ALL''" "[]" Q_title "[]"]
  have "\<forall>i. Suc i < length
        (filteredTenders sampleRows ''ALL'' ''ALL'' [] Q_title [] initialSortState) \<longrightarrow>
      or_empty (published_at
        (filteredTenders sampleRows ''ALL'' ''ALL'' [] Q_title [] initialSortState ! Suc i))
       \<le> or_empty (published_at
        (filteredTenders sampleRows ''ALL'' ''ALL'' [] Q_title [] initialSortState ! i))"
    by (elim conjE)
  with h have o: "or_empty (published_at
        (filteredTenders sampleRows ''ALL'' ''ALL'' [] Q_title [] initialSortState ! Suc 0))
       \<le> or_empty (published_at
        (filteredTenders sampleRows ''ALL'' ''ALL'' [] Q_title [] initialSortState ! 0))"
    by (elim allE impE)
  have e: "map published_at
      (filteredTenders sampleRows ''ALL'' ''ALL'' [] Q_title [] initialSortState)
       = [Some ''2024-03-02'', Some ''2024-01-15'', None]"
    by code_simp
  from h o e show ?thesis by (intro conjI)
qed

section \<open>Listing and statistics over one filtered set\<close>

text \<open>The counts of all buckets add up to the number of labels handed in: ranking only
  reorders the buckets, and \<open>bucketCounts\<close> counts every label under its own bucket.\<close>

lemma sum_bucketCounts: "sum_list (map snd (bucketCounts labels)) = length labels"
proof -
  have "sum_list (map snd (bucketCounts labels)) = sum_list (map (count_list labels) (remdups labels))"
    by (simp add: bucketCounts_def comp_def)
  also have "\<dots> = sum (count_list labels) (set labels)"
    by (simp add: sum_list_distinct_conv_sum_set)
  also have "\<dots> = length labels"
    by (simp add: sum_count_set)
  finally show ?thesis .
qed

lemma sum_list_insort_key:
  fixes f :: "'a \<Rightarrow> nat"
  shows "sum_list (map f (insort_key k x xs)) = f x + sum_list (map f xs)"
  by (induction xs) simp_all

lemma sum_list_sort_key:
  fixes f :: "'a \<Rightarrow> nat"
  shows "sum_list (map f (sort_key k xs)) = sum_list (map f xs)"
  by (induction xs) (simp_all add: sum_list_insort_key)

lemma sum_rankBuckets: "sum_list (map snd (rankBuckets bs)) = sum_list (map snd bs)"
  by (simp add: rankBuckets_def sum_list_sort_key)

lemma sorted_rankBuckets: "sorted (map rankKey (rankBuckets bs))"
  by (simp add: rankBuckets_def)

lemma rankKey_le: "rankKey a \<le> rankKey b \<longleftrightarrow> snd b < snd a \<or> (snd a = snd b \<and> fst a \<le> fst b)"
  by (auto simp: rankKey_def)

lemma set_truncate_to: "set (truncate_to n xs) \<subseteq> set xs"
  by (auto simp: truncate_to_def split: option.splits dest: in_set_takeD)

lemma bucket_count:
  assumes "b \<in> set (buckets (aggregate m labels top_n))"
  shows "snd b = count_list labels (fst b)" and "fst b \<in> set labels"
proof -
  from assms have "b \<in> set (rankBuckets (bucketCounts labels))"
    using set_truncate_to by (fastforce simp: aggregate_def Let_def)
  then have "b \<in> set (bucketCounts labels)"
    by (simp add: rankBuckets_def)
  then show "snd b = count_list labels (fst b)" and "fst b \<in> set labels"
    by (auto simp: bucketCounts_def)
qed

lemma count_list_map_filter: "count_list (map f xs) l = length (filter (\<lambda>t. f t = l) xs)"
  by (induction xs) simp_all

lemma length_filter_insert_cmp:
  "length (filter Q (insert_cmp cmp x xs)) = length (filter Q (x # xs))"
  by (induction xs) auto

lemma length_filter_sort_cmp: "length (filter Q (sort_cmp cmp xs)) = length (filter Q xs)"
  by (induction xs) (simp_all add: sort_cmp_def length_filter_insert_cmp)

lemma listTenders_unlimited:
  "listTenders P None store =
     sort_cmp (\<lambda>a b. cmp_str (- 1) (st_published_at a) (st_published_at b)) (filter P store)"
  by (simp add: listTenders_def truncate_to_def)

lemma count_list_distinct: "distinct xs \<Longrightarrow> count_list xs x = (if x \<in> set xs then 1 else 0)"
  by (induction xs) auto

lemma count_keywordHits:
  "count_list (keywordHits fs) k = length (filter (\<lambda>t. k \<in> set (st_matched_keywords t)) fs)"
  by (induction fs) (simp_all add: keywordHits_def count_list_distinct)

lemma set_keywordHits: "set (keywordHits fs) = (\<Union>t \<in> set fs. set (st_matched_keywords t))"
  by (simp add: keywordHits_def)

lemma sorted_truncate: "sorted (map rankKey (truncate_to n (rankBuckets bs)))"
  by (auto simp: truncate_to_def rankBuckets_def take_map[symmetric] sorted_wrt_take split: option.splits)

lemma top_bucket:
  assumes c: "count_list labels w = m" and pos: "0 < m"
    and others: "\<forall>l \<in> set labels. l \<noteq> w \<longrightarrow> count_list labels l < m"
  shows "take 1 (rankBuckets (bucketCounts labels)) = [(w, m)]"
proof -
  let ?r = "rankBuckets (bucketCounts labels)"
  from c pos have w: "w \<in> set labels"
    by (metis count_list_0_iff less_numeral_extra(3))
  then have mem: "(w, m) \<in> set ?r"
    using c by (auto simp: rankBuckets_def bucketCounts_def)
  then obtain h r where r: "?r = h # r"
    by (cases ?r) auto
  have "sorted (map rankKey ?r)" by (rule sorted_rankBuckets)
  with r have le: "\<forall>b \<in> set ?r. rankKey h \<le> rankKey b"
    by auto
  have "h \<in> set (bucketCounts labels)"
    using r by (metis list.set_intros(1) rankBuckets_def set_sort)
  then have h: "snd h = count_list labels (fst h)" "fst h \<in> set labels"
    by (auto simp: bucketCounts_def)
  from le mem have "rankKey h \<le> rankKey (w, m)" by blast
  then have k: "m < snd h \<or> (snd h = m \<and> fst h \<le> w)"
    by (simp add: rankKey_le)
  have "fst h = w"
  proof (rule ccontr)
    assume "fst h \<noteq> w"
    with others h have "snd h < m" by simp
    with k show False by simp
  qed
  with h c have "h = (w, m)" by (cases h) simp
  with r show ?thesis by simp
qed

lemma total_aggregate: "total_tenders (aggregate m labels top_n) = m"
  by (simp add: aggregate_def Let_def)

lemma buckets_aggregate_None:
  "buckets (aggregate m labels None) = rankBuckets (bucketCounts labels)"
  by (simp add: aggregate_def Let_def truncate_to_def)

lemma buckets_aggregate_Some:
  "buckets (aggregate m labels (Some n)) = take n (rankBuckets (bucketCounts labels))"
  by (simp add: aggregate_def Let_def truncate_to_def)

lemma sum_buckets_aggregate: "sum_list (map snd (buckets (aggregate m labels None))) = length labels"
  by (simp add: buckets_aggregate_None sum_rankBuckets sum_bucketCounts)

text \<open>
  Claim C1. For every filter predicate \<open>P\<close> over the same store, the listing and the
  statistics work on the same filtered collection: the unlimited listing holds exactly
  the tenders that satisfy \<open>P\<close>; \<open>total_tenders\<close> of \<open>statsByCategory\<close> (and of
  \<open>statsByPortal\<close>) is the length of the unlimited listing, whatever \<open>top_n\<close>; the
  counts of all the buckets (no \<open>top_n\<close>) add up to \<open>total_tenders\<close>; and every bucket
  returned counts the listed tenders of its category (its portal).
\<close>

theorem listing_and_stats_agree:
  "set (listTenders P None store) = set (filter P store)
   \<and> total_tenders (statsByCategory P top_n store) = length (listTenders P None store)
   \<and> total_tenders (statsByPortal P top_n store) = length (listTenders P None store)
   \<and> sum_list (map snd (buckets (statsByCategory P None store)))
       = total_tenders (statsByCategory P None store)
   \<and> sum_list (map snd (buckets (statsByPortal P None store)))
       = total_tenders (statsByPortal P None store)
   \<and> (\<forall>b \<in> set (buckets (statsByCategory P top_n store)).
         snd b = length (filter (\<lambda>t. st_category t = fst b) (listTenders P None store)))
   \<and> (\<forall>b \<in> set (buckets (statsByPortal P top_n store)).
         snd b = length (filter (\<lambda>t. st_portal t = fst b) (listTenders P None store)))"
proof (intro conjI ballI)
  show "set (listTenders P None store) = set (filter P store)"
    by (simp only: listTenders_unlimited set_sort_cmp)
  show "total_tenders (statsByCategory P top_n store) = length (listTenders P None store)"
    by (simp add: statsByCategory_def Let_def total_aggregate listTenders_unlimited
        length_sort_cmp)
  show "total_tenders (statsByPortal P top_n store) = length (listTenders P None store)"
    by (simp add: statsByPortal_def Let_def total_aggregate listTenders_unlimited
        length_sort_cmp)
  show "sum_list (map snd (buckets (statsByCategory P None store)))
       = total_tenders (statsByCategory P None store)"
    by (simp add: statsByCategory_def Let_def total_aggregate sum_buckets_aggregate)
  show "sum_list (map snd (buckets (statsByPortal P None store)))
       = total_tenders (statsByPortal P None store)"
    by (simp add: statsByPortal_def Let_def total_aggregate sum_buckets_aggregate)
next
  fix b
  assume "b \<in> set (buckets (statsByCategory P top_n store))"
  then have "snd b = count_list (map st_category (filter P store)) (fst b)"
    by (simp add: statsByCategory_def Let_def bucket_count(1))
  then show "snd b = length (filter (\<lambda>t. st_category t = fst b) (listTenders P None store))"
    by (simp only: count_list_map_filter listTenders_unlimited length_filter_sort_cmp)
next
  fix b
  assume "b \<in> set (buckets (statsByPortal P top_n store))"
  then have "snd b = count_list (map st_portal (filter P store)) (fst b)"
    by (simp add: statsByPortal_def Let_def bucket_count(1))
  then show "snd b = length (filter (\<lambda>t. st_portal t = fst b) (listTenders P None store))"
    by (simp only: count_list_map_filter listTenders_unlimited length_filter_sort_cmp)
qed

theorem listing_and_stats_agree_witness:
  "(''ERP'', 12) \<in> set (buckets (statsByCategory (\<lambda>t. st_portal t = ''SEAO'') (Some 5) scenarioStore))
   \<and> length (filter (\<lambda>t. st_category t = ''ERP'')
        (listTenders (\<lambda>t. st_portal t = ''SEAO'') None scenarioStore)) = 12
   \<and> (''SEAO'', 12) \<in> set (buckets (statsByPortal (\<lambda>t. st_portal t = ''SEAO'') (Some 5) scenarioStore))
   \<and> length (filter (\<lambda>t. st_portal t = ''SEAO'')
        (listTenders (\<lambda>t. st_portal t = ''SEAO'') None scenarioStore)) = 12
   \<and> total_tenders (statsByCategory (\<lambda>t. st_portal t = ''SEAO'') (Some 5) scenarioStore) = 12"
proof -
  let ?P = "\<lambda>t. st_portal t = ''SEAO''"
  note inst = listing_and_stats_agree [of ?P scenarioStore "Some 5"]
  have m1: "(''ERP'', 12) \<in> set (buckets (statsByCategory ?P (Some 5) scenarioStore))"
    by code_simp
  have m2: "(''SEAO'', 12) \<in> set (buckets (statsByPortal ?P (Some 5) scenarioStore))"
    by code_simp
  from inst have "\<forall>b \<in> set (buckets (statsByCategory ?P (Some 5) scenarioStore)).
         snd b = length (filter (\<lambda>t. st_category t = fst b) (listTenders ?P None scenarioStore))"
    by (elim conjE)
  from bspec [OF this m1]
  have r1: "length (filter (\<lambda>t. st_category t = ''ERP'') (listTenders ?P None scenarioStore)) = 12"
    by simp
  from inst have "\<forall>b \<in> set (buckets (statsByPortal ?P (Some 5) scenarioStore)).
         snd b = length (filter (\<lambda>t. st_portal t = fst b) (listTenders ?P None scenarioStore))"
    by (elim conjE)
  from bspec [OF this m2]
  have r2: "length (filter (\<lambda>t. st_portal t = ''SEAO'') (listTenders ?P None scenarioStore)) = 12"
    by simp
  have t: "total_tenders (statsByCategory ?P (Some 5) scenarioStore) = 12"
    by code_simp
  from m1 r1 m2 r2 t show ?thesis by (intro conjI)
qed

text \<open>
  Claim C8. \<open>statsByKeyword\<close> returns its \<open>(bucket_label, count)\<close> pairs ordered by count
  descending, ties by label ascending; with \<open>top_n = n\<close> the result is the first \<open>n\<close>
  pairs of that ranking; every count is the number of filtered tenders that match the
  keyword, while \<open>total_tenders\<close> is the number of tenders in the filtered set, not the
  sum of the keyword hits. Scenario C: when "odoo" matches 12 tenders of the filtered set,
  "servicenow" matches 8 and these are the keywords matched, \<open>top_n = 1\<close> returns exactly
  \<open>[("odoo", 12)]\<close>.
\<close>

theorem keyword_stats_ranked_and_truncated:
  "(\<forall>i j. i < j \<and> j < length (buckets (statsByKeyword P top_n store)) \<longrightarrow>
        snd (buckets (statsByKeyword P top_n store) ! j)
          < snd (buckets (statsByKeyword P top_n store) ! i)
        \<or> (snd (buckets (statsByKeyword P top_n store) ! i)
              = snd (buckets (statsByKeyword P top_n store) ! j)
            \<and> fst (buckets (statsByKeyword P top_n store) ! i)
              \<le> fst (buckets (statsByKeyword P top_n store) ! j)))
   \<and> buckets (statsByKeyword P (Some n) store) = take n (buckets (statsByKeyword P None store))
   \<and> (\<forall>b \<in> set (buckets (statsByKeyword P top_n store)).
         snd b = length (filter (\<lambda>t. fst b \<in> set (st_matched_keywords t)) (filter P store)))
   \<and> total_tenders (statsByKeyword P top_n store) = length (filter P store)
   \<and> (length (filter (\<lambda>t. ''odoo'' \<in> set (st_matched_keywords t)) (filter P store)) = 12
       \<and> length (filter (\<lambda>t. ''servicenow'' \<in> set (st_matched_keywords t)) (filter P store)) = 8
       \<and> (\<forall>t \<in> set (filter P store). set (st_matched_keywords t) \<subseteq> {''odoo'', ''servicenow''})
      \<longrightarrow> buckets (statsByKeyword P (Some 1) store) = [(''odoo'', 12)])"
proof (intro conjI allI impI ballI)
  fix i j
  let ?bs = "buckets (statsByKeyword P top_n store)"
  assume ij: "i < j \<and> j < length ?bs"
  have "sorted (map rankKey ?bs)"
    by (simp add: statsByKeyword_def Let_def aggregate_def sorted_truncate)
  with ij have "rankKey (?bs ! i) \<le> rankKey (?bs ! j)"
    by (simp add: sorted_iff_nth_mono)
  then show "snd (?bs ! j) < snd (?bs ! i)
      \<or> (snd (?bs ! i) = snd (?bs ! j) \<and> fst (?bs ! i) \<le> fst (?bs ! j))"
    by (simp only: rankKey_le)
next
  show "buckets (statsByKeyword P (Some n) store) = take n (buckets (statsByKeyword P None store))"
    by (simp add: statsByKeyword_def Let_def buckets_aggregate_None buckets_aggregate_Some)
next
  fix b
  assume "b \<in> set (buckets (statsByKeyword P top_n store))"
  then have "snd b = count_list (keywordHits (filter P store)) (fst b)"
    by (simp add: statsByKeyword_def Let_def bucket_count(1))
  then show "snd b = length (filter (\<lambda>t. fst b \<in> set (st_matched_keywords t)) (filter P store))"
    by (simp only: count_keywordHits)
next
  show "total_tenders (statsByKeyword P top_n store) = length (filter P store)"
    by (simp add: statsByKeyword_def Let_def total_aggregate)
next
  let ?fs = "filter P store"
  assume a: "length (filter (\<lambda>t. ''odoo'' \<in> set (st_matched_keywords t)) ?fs) = 12
       \<and> length (filter (\<lambda>t. ''servicenow'' \<in> set (st_matched_keywords t)) ?fs) = 8
       \<and> (\<forall>t \<in> set ?fs. set (st_matched_keywords t) \<subseteq> {''odoo'', ''servicenow''})"
  then have o: "count_list (keywordHits ?fs) ''odoo'' = 12"
    and s: "count_list (keywordHits ?fs) ''servicenow'' = 8"
    by (simp_all only: count_keywordHits)
  from a have "set (keywordHits ?fs) \<subseteq> {''odoo'', ''servicenow''}"
    by (auto simp: set_keywordHits)
  with s have "\<forall>l \<in> set (keywordHits ?fs). l \<noteq> ''odoo'' \<longrightarrow> count_list (keywordHits ?fs) l < 12"
    by auto
  with o have "take 1 (rankBuckets (bucketCounts (keywordHits ?fs))) = [(''odoo'', 12)]"
    by (intro top_bucket) simp_all
  then show "buckets (statsByKeyword P (Some 1) store) = [(''odoo'', 12)]"
    by (simp add: statsByKeyword_def Let_def buckets_aggregate_Some)
qed

theorem keyword_stats_ranked_and_truncated_witness:
  "length (filter (\<lambda>t. ''odoo'' \<in> set (st_matched_keywords t)) (filter (\<lambda>t. True) scenarioStore)) = 12
   \<and> length (filter (\<lambda>t. ''servicenow'' \<in> set (st_matched_keywords t))
        (filter (\<lambda>t. True) scenarioStore)) = 8
   \<and> buckets (statsByKeyword (\<lambda>t. True) (Some 1) scenarioStore) = [(''odoo'', 12)]
   \<and> total_tenders (statsByKeyword (\<lambda>t. True) (Some 1) scenarioStore) = 14
   \<and> Suc 0 < length (buckets (statsByKeyword (\<lambda>t. True) None scenarioStore))
   \<and> (snd (buckets (statsByKeyword (\<lambda>t. True) None scenarioStore) ! Suc 0)
         < snd (buckets (statsByKeyword (\<lambda>t. True) None scenarioStore) ! 0)
       \<or> snd (buckets (statsByKeyword (\<lambda>t. True) None scenarioStore) ! 0)
           = snd (buckets (statsByKeyword (\<lambda>t. True) None scenarioStore) ! Suc 0)
         \<and> fst (buckets (statsByKeyword (\<lambda>t. True) None scenarioStore) ! 0)
           \<le> fst (buckets (statsByKeyword (\<lambda>t. True) None scenarioStore) ! Suc 0))"
proof -
  let ?P = "\<lambda>t::StoredTender. True"
  note inst = keyword_stats_ranked_and_truncated
    [where P = ?P and top_n = "Some 1" and store = scenarioStore and n = 1]
  note inst' = keyword_stats_ranked_and_truncated
    [where P = ?P and top_n = None and store = scenarioStore and n = 1]
  have h1: "length (filter (\<lambda>t. ''odoo'' \<in> set (st_matched_keywords t)) (filter ?P scenarioStore)) = 12"
    by code_simp
  have h2: "length (filter (\<lambda>t. ''servicenow'' \<in> set (st_matched_keywords t))
      (filter ?P scenarioStore)) = 8"
    by code_simp
  have h3: "\<forall>t \<in> set (filter ?P scenarioStore).
      set (st_matched_keywords t) \<subseteq> {''odoo'', ''servicenow''}"
    by code_simp
  from inst have "length (filter (\<lambda>t. ''odoo'' \<in> set (st_matched_keywords t))
          (filter ?P scenarioStore)) = 12
       \<and> length (filter (\<lambda>t. ''servicenow'' \<in> set (st_matched_keywords t))
          (filter ?P scenarioStore)) = 8
       \<and> (\<forall>t \<in> set (filter ?P scenarioStore).
            set (st_matched_keywords t) \<subseteq> {''odoo'', ''servicenow''})
      \<longrightarrow> buckets (statsByKeyword ?P (Some 1) scenarioStore) = [(''odoo'', 12)]"
    by (elim conjE)
  with h1 h2 h3 have r: "buckets (statsByKeyword ?P (Some 1) scenarioStore) = [(''odoo'', 12)]"
    by (elim impE) (intro conjI)
  from inst have "total_tenders (statsByKeyword ?P (Some 1) scenarioStore)
      = length (filter ?P scenarioStore)"
    by (elim conjE)
  moreover have "length (filter ?P scenarioStore) = 14"
    by code_simp
  ultimately have t: "total_tenders (statsByKeyword ?P (Some 1) scenarioStore) = 14"
    by simp
  have l: "Suc 0 < length (buckets (statsByKeyword ?P None scenarioStore))"
    by code_simp
  from inst' have "\<forall>i j. i < j \<and> j < length (buckets (statsByKeyword ?P None scenarioStore)) \<longrightarrow>
        snd (buckets (statsByKeyword ?P None scenarioStore) ! j)
          < snd (buckets (statsByKeyword ?P None scenarioStore) ! i)
        \<or> (snd (buckets (statsByKeyword ?P None scenarioStore) ! i)
              = snd (buckets (statsByKeyword ?P None scenarioStore) ! j)
            \<and> fst (buckets (statsByKeyword ?P None scenarioStore) ! i)
              \<le> fst (buckets (statsByKeyword ?P None scenarioStore) ! j))"
    by (elim conjE)
  from this [rule_format, of 0 "Suc 0"] l
  have o: "snd (buckets (statsByKeyword ?P None scenarioStore) ! Suc 0)
         < snd (buckets (statsByKeyword ?P None scenarioStore) ! 0)
       \<or> snd (buckets (statsByKeyword ?P None scenarioStore) ! 0)
           = snd (buckets (statsByKeyword ?P None scenarioStore) ! Suc 0)
         \<and> fst (buckets (statsByKeyword ?P None scenarioStore) ! 0)
           \<le> fst (buckets (statsByKeyword ?P None scenarioStore) ! Suc 0)"
    by simp
  from h1 h2 r t l o show ?thesis by (intro conjI)
qed

end
